theory Spec2Isabelle
  imports Complex_Main "HOL-Library.Multiset"
begin

section \<open>Values exchanged with Qt\<close>

text \<open>
  The program is one class, \<open>MainWindow\<close>, whose slots are run one after another by the
  event loop.  Its data are Qt's dynamic values: a parsed reply is a \<open>QJsonValue\<close> tree, and
  every station, sensor, measurement and history entry is a \<open>QVariantMap\<close>.  Both are
  modelled as they are, as trees; a \<open>QString\<close> is the list of the bytes of its UTF-8
  encoding (so a text with Polish letters is written with \<open>CHR 0x..\<close>).  A \<open>double\<close> that is
  parsed, stored or printed is a real number.  The arithmetic on doubles, which rounds and
  can give a result that is not a number, is not computed here: its operations are
  parameters (see \<open>library\<close> below).
\<close>

subsection \<open>QJsonValue\<close>

datatype json =
    JNull
  | JBool bool
  | JDouble real
  | JString string
  | JArray "json list"
  | JObject "(string \<times> json) list"

text \<open>
  Every \<open>QJsonObject\<close> of the program is a local variable that is not \<open>const\<close>, so
  \<open>obj[key]\<close> is the \<open>operator[]\<close> that gives a reference into the object: for a key the
  object does not have it first stores a null value under the key and then refers to it.
  The object is a local copy, so all that can be seen of this is that an absent key
  reads as null.
\<close>

definition j_index :: "(string \<times> json) list \<Rightarrow> string \<Rightarrow> json" where
  "j_index obj k = (case map_of obj k of None \<Rightarrow> JNull | Some v \<Rightarrow> v)"

definition j_isNull :: "json \<Rightarrow> bool" where
  "j_isNull v = (v = JNull)"

definition j_toObject :: "json \<Rightarrow> (string \<times> json) list" where
  "j_toObject v = (case v of JObject kvs \<Rightarrow> kvs | _ \<Rightarrow> [])"

definition j_toArray :: "json \<Rightarrow> json list" where
  "j_toArray v = (case v of JArray xs \<Rightarrow> xs | _ \<Rightarrow> [])"

definition j_toString :: "json \<Rightarrow> string" where
  "j_toString v = (case v of JString s \<Rightarrow> s | _ \<Rightarrow> [])"

definition j_toDouble :: "json \<Rightarrow> real" where
  "j_toDouble v = (case v of JDouble d \<Rightarrow> d | _ \<Rightarrow> 0)"

text \<open>\<open>QJsonValue::toInt\<close> gives the default 0 unless the value is a whole number in the
  range of a 32-bit \<open>int\<close>.\<close>

definition j_toInt :: "json \<Rightarrow> int" where
  "j_toInt v = (case v of
      JDouble d \<Rightarrow>
        (if d = of_int \<lfloor>d\<rfloor> \<and> - 2147483648 \<le> \<lfloor>d\<rfloor> \<and> \<lfloor>d\<rfloor> \<le> 2147483647 then \<lfloor>d\<rfloor> else 0)
    | _ \<Rightarrow> 0)"

subsection \<open>QVariant and QVariantMap\<close>

datatype variant =
    VInvalid
  | VNull
  | VBool bool
  | VInt int
  | VDouble real
  | VString string
  | VList "variant list"
  | VMap "(string \<times> variant) list"

type_synonym qvariantmap = "(string \<times> variant) list"

text \<open>
  Reading \<open>m[k]\<close> gives an invalid \<open>QVariant\<close> when the key is absent.  On a map that is
  not \<open>const\<close> Qt also stores that invalid value under \<open>k\<close>.  An invalid value reads back
  through every accessor below exactly as an absent key does, and the one call of
  \<open>contains\<close> in the program asks for a key that has not been read before; so the model
  reads without storing, and its maps are the program's maps up to entries that hold an
  invalid value.  Assigning \<open>m[k] = v\<close> replaces the value when the key is there and adds
  the key otherwise.  (A \<open>QMap\<close> keeps its keys in ascending order; the list keeps them in
  the order in which they were added, and nothing below depends on the order.)
\<close>

definition vget :: "qvariantmap \<Rightarrow> string \<Rightarrow> variant" where
  "vget m k = (case map_of m k of None \<Rightarrow> VInvalid | Some v \<Rightarrow> v)"

fun vset :: "qvariantmap \<Rightarrow> string \<Rightarrow> variant \<Rightarrow> qvariantmap" where
  "vset [] k v = [(k, v)]"
| "vset ((k', v') # m) k v = (if k' = k then (k, v) # m else (k', v') # vset m k v)"

definition v_contains :: "qvariantmap \<Rightarrow> string \<Rightarrow> bool" where
  "v_contains m k = (map_of m k \<noteq> None)"

subsection \<open>What Qt's library and the machine compute\<close>

text \<open>
  The functions below are parameters of the model, gathered in one record that is an
  argument of every function that calls one of them; every theorem holds whatever they
  compute.
  \<^item> The conversions that \<open>QVariant\<close> makes between a number and a text:
    \<open>toInt_double\<close> is \<open>toInt\<close> of a stored \<open>double\<close>, \<open>toInt_text\<close> is \<open>toInt\<close> of a stored
    text, and so on for \<open>toString\<close>, \<open>toDouble\<close> and \<open>toBool\<close>.
  \<^item> \<open>arg_text t a\<close> is \<open>QString(t).arg(a)\<close> for a text \<open>a\<close>, which replaces the place markers
    of \<open>t\<close> with the lowest number; \<open>arg_f2 t d\<close> is \<open>QString(t).arg(d, 0, 'f', 2)\<close> for a
    \<open>double\<close> \<open>d\<close>, which replaces them with \<open>d\<close> printed with two decimals.
  \<^item> The arithmetic on doubles.  A value of the type \<open>double\<close> is \<open>None\<close> when it is not a
    number; \<open>d_lit\<close> is the \<open>double\<close> that a literal of the program text denotes.
\<close>

type_synonym double = "real option"

record library =
  toInt_double :: "real \<Rightarrow> int"
  toInt_text :: "string \<Rightarrow> int"
  toString_int :: "int \<Rightarrow> string"
  toString_double :: "real \<Rightarrow> string"
  toDouble_text :: "string \<Rightarrow> real"
  toBool_text :: "string \<Rightarrow> bool"
  arg_text :: "string \<Rightarrow> string \<Rightarrow> string"
  arg_f2 :: "string \<Rightarrow> real \<Rightarrow> string"
  d_lit :: "real \<Rightarrow> double"
  d_add :: "double \<Rightarrow> double \<Rightarrow> double"
  d_sub :: "double \<Rightarrow> double \<Rightarrow> double"
  d_mul :: "double \<Rightarrow> double \<Rightarrow> double"
  d_div :: "double \<Rightarrow> double \<Rightarrow> double"
  d_sin :: "double \<Rightarrow> double"
  d_cos :: "double \<Rightarrow> double"
  d_sqrt :: "double \<Rightarrow> double"
  d_atan2 :: "double \<Rightarrow> double \<Rightarrow> double"

subsection \<open>The accessors of QVariant\<close>

text \<open>
  \<open>toMap\<close> and \<open>toList\<close> give the stored map or list and are empty for every other value
  this program stores.  \<open>toString\<close>, \<open>toInt\<close>, \<open>toDouble\<close> and \<open>toBool\<close> give the stored
  value when it has the type asked for, convert a stored number, text or truth value, and
  give their default (the empty text, 0, false) for an invalid or null value, a list and
  a map.  An \<open>int\<close> is converted to a \<open>double\<close> exactly; a number is true when it is not 0.
\<close>

definition v_toMap :: "variant \<Rightarrow> qvariantmap" where
  "v_toMap v = (case v of VMap m \<Rightarrow> m | _ \<Rightarrow> [])"

definition v_toList :: "variant \<Rightarrow> variant list" where
  "v_toList v = (case v of VList xs \<Rightarrow> xs | _ \<Rightarrow> [])"

definition v_toString :: "library \<Rightarrow> variant \<Rightarrow> string" where
  "v_toString lib v =
     (case v of
        VString s \<Rightarrow> s
      | VBool b \<Rightarrow> (if b then ''true'' else ''false'')
      | VInt i \<Rightarrow> toString_int lib i
      | VDouble d \<Rightarrow> toString_double lib d
      | _ \<Rightarrow> [])"

definition v_toInt :: "library \<Rightarrow> variant \<Rightarrow> int" where
  "v_toInt lib v =
     (case v of
        VInt i \<Rightarrow> i
      | VBool b \<Rightarrow> (if b then 1 else 0)
      | VDouble d \<Rightarrow> toInt_double lib d
      | VString s \<Rightarrow> toInt_text lib s
      | _ \<Rightarrow> 0)"

definition v_toDouble :: "library \<Rightarrow> variant \<Rightarrow> real" where
  "v_toDouble lib v =
     (case v of
        VDouble d \<Rightarrow> d
      | VInt i \<Rightarrow> of_int i
      | VBool b \<Rightarrow> (if b then 1 else 0)
      | VString s \<Rightarrow> toDouble_text lib s
      | _ \<Rightarrow> 0)"

definition v_toBool :: "library \<Rightarrow> variant \<Rightarrow> bool" where
  "v_toBool lib v =
     (case v of
        VBool b \<Rightarrow> b
      | VInt i \<Rightarrow> i \<noteq> 0
      | VDouble d \<Rightarrow> d \<noteq> 0
      | VString s \<Rightarrow> toBool_text lib s
      | _ \<Rightarrow> False)"

text \<open>\<open>QJsonValue::toVariant\<close> and \<open>QJsonValue::fromVariant\<close>, used when the history file is
  read and written.  A number of the file is read as \<open>VDouble\<close>, so that \<open>toInt\<close> of it is
  the parameter \<open>toInt_double\<close>, whichever numeric type Qt keeps it in.\<close>

fun j_toVariant :: "json \<Rightarrow> variant" where
  "j_toVariant JNull = VNull"
| "j_toVariant (JBool b) = VBool b"
| "j_toVariant (JDouble d) = VDouble d"
| "j_toVariant (JString s) = VString s"
| "j_toVariant (JArray xs) = VList (map j_toVariant xs)"
| "j_toVariant (JObject kvs) = VMap (map (\<lambda>(k, v). (k, j_toVariant v)) kvs)"

fun j_fromVariant :: "variant \<Rightarrow> json" where
  "j_fromVariant VInvalid = JNull"
| "j_fromVariant VNull = JNull"
| "j_fromVariant (VBool b) = JBool b"
| "j_fromVariant (VInt i) = JDouble (of_int i)"
| "j_fromVariant (VDouble d) = JDouble d"
| "j_fromVariant (VString s) = JString s"
| "j_fromVariant (VList xs) = JArray (map j_fromVariant xs)"
| "j_fromVariant (VMap kvs) = JObject (map (\<lambda>(k, v). (k, j_fromVariant v)) kvs)"

subsection \<open>Replies, requests and signals\<close>

text \<open>
  A finished \<open>QNetworkReply\<close> either carries an error or a body; the body is given as the
  document \<open>QJsonDocument::fromJson\<close> makes of it (\<open>JNull\<close> for a body that is not JSON).
\<close>

datatype reply = NetworkFailure | Finished json

text \<open>The four URLs the program gets through its \<open>manager\<close>, by their last path segments.\<close>

datatype request =
    GetFindAll
  | GetSensors int
  | GetIndex int
  | GetData int

datatype signal =
    resultChanged
  | stationsChanged
  | userLocationChanged
  | userAddressChanged
  | stationDetailsChanged
  | historyChanged
  | networkError
  | isFromHistoryChanged

section \<open>The state of MainWindow\<close>

text \<open>
  The member variables, and beside them what the object has done to the world: the
  requests it has issued through \<open>manager\<close>, the signals it has emitted (both in order), and
  the file \<open>history.json\<close> (its parsed content, \<open>None\<close> when it cannot be opened for
  reading; \<open>file_writable\<close> says whether opening it for writing succeeds).
\<close>

record mainwindow =
  m_result :: string
  m_stations :: "variant list"
  m_userLocation :: qvariantmap
  m_userAddress :: string
  m_stationDetails :: qvariantmap
  m_history :: "variant list"
  m_isFromHistory :: bool
  m_pendingRequests :: "int \<rightharpoonup> int"
  requests :: "request list"
  emitted :: "signal list"
  history_file :: "json option"
  file_writable :: bool

definition emit :: "signal \<Rightarrow> mainwindow \<Rightarrow> mainwindow" where
  "emit sg s = s\<lparr>emitted := emitted s @ [sg]\<rparr>"

definition manager_get :: "request \<Rightarrow> mainwindow \<Rightarrow> mainwindow" where
  "manager_get rq s = s\<lparr>requests := requests s @ [rq]\<rparr>"

text \<open>\<open>QMap<int,int>::operator[]\<close>: a key that is absent counts as 0.\<close>

definition pending :: "mainwindow \<Rightarrow> int \<Rightarrow> int" where
  "pending s k = (case m_pendingRequests s k of None \<Rightarrow> 0 | Some c \<Rightarrow> c)"

definition set_pending :: "int \<Rightarrow> int \<Rightarrow> mainwindow \<Rightarrow> mainwindow" where
  "set_pending k c s = s\<lparr>m_pendingRequests := (m_pendingRequests s)(k \<mapsto> c)\<rparr>"

section \<open>Fetching the details of a station\<close>

definition fetchStationDetails :: "int \<Rightarrow> mainwindow \<Rightarrow> mainwindow" where
  "fetchStationDetails stationId s =
     (let s1 = s\<lparr>m_stationDetails := vset [] ''stationId'' (VInt stationId)\<rparr>;
          s2 = set_pending stationId 2 s1;
          s3 = manager_get (GetSensors stationId) s2
      in manager_get (GetIndex stationId) s3)"

text \<open>One round of the loop over the sensors of the reply: the sensor is appended to the
  local list, the counter of the station goes up by one and the measurements of the
  sensor are requested.\<close>

definition sensorOf :: "json \<Rightarrow> qvariantmap" where
  "sensorOf jv =
     (let obj = j_toObject jv;
          sensor = vset [] ''id'' (VInt (j_toInt (j_index obj ''id'')));
          sensor = vset sensor ''paramName''
                     (VString (j_toString (j_index (j_toObject (j_index obj ''param'')) ''paramName'')));
          sensor = vset sensor ''paramFormula''
                     (VString (j_toString (j_index (j_toObject (j_index obj ''param'')) ''paramFormula'')))
      in sensor)"

definition sensorStep :: "library \<Rightarrow> int \<Rightarrow> variant list \<times> mainwindow \<Rightarrow> json \<Rightarrow> variant list \<times> mainwindow" where
  "sensorStep lib stationId acc jv =
     (case acc of (sensorsList, s) \<Rightarrow>
        (let sensor = sensorOf jv;
             s1 = set_pending stationId (pending s stationId + 1) s
         in (sensorsList @ [VMap sensor], manager_get (GetData (v_toInt lib (vget sensor ''id''))) s1)))"

text \<open>The loop: the local list and the state after each of its rounds, in order.\<close>

fun sensorRounds ::
  "library \<Rightarrow> int \<Rightarrow> variant list \<times> mainwindow \<Rightarrow> json list \<Rightarrow> (variant list \<times> mainwindow) list" where
  "sensorRounds lib stationId acc [] = []"
| "sensorRounds lib stationId acc (jv # sensors) =
     sensorStep lib stationId acc jv # sensorRounds lib stationId (sensorStep lib stationId acc jv) sensors"

text \<open>
  The states the object goes through while the slot runs, so that the order of the
  statements of the slot is part of the model: the state after each round of the loop,
  then the state after the list of sensors has been put into the detail record, then
  the state after the counter of the station has gone down by one.  For a failed reply
  there is one state, after \<open>networkError\<close> has been emitted.  The slot leaves the
  object in the last of these states.
\<close>

definition processSensorsReplySteps :: "library \<Rightarrow> mainwindow \<Rightarrow> reply \<Rightarrow> mainwindow list" where
  "processSensorsReplySteps lib s r =
     (case r of
        Finished doc \<Rightarrow>
          (let stationId = v_toInt lib (vget (m_stationDetails s) ''stationId'');
               rounds = sensorRounds lib stationId ([], s) (j_toArray doc);
               (sensorsList, s1) = last (([], s) # rounds);
               s2 = s1\<lparr>m_stationDetails := vset (m_stationDetails s1) ''sensors'' (VList sensorsList)\<rparr>;
               s3 = set_pending stationId (pending s2 stationId - 1) s2
           in map snd rounds @ [s2, s3])
      | NetworkFailure \<Rightarrow> [emit networkError s])"

definition processSensorsReply :: "library \<Rightarrow> mainwindow \<Rightarrow> reply \<Rightarrow> mainwindow" where
  "processSensorsReply lib s r = last (processSensorsReplySteps lib s r)"

text \<open>The measurements of a reply: the entries whose \<open>value\<close> is not null, in the order of
  the reply.\<close>

definition measurementOf :: "json \<Rightarrow> variant" where
  "measurementOf jv =
     (let measurement = j_toObject jv;
          d = vset [] ''date'' (VString (j_toString (j_index measurement ''date'')));
          d = vset d ''value'' (VDouble (j_toDouble (j_index measurement ''value'')))
      in VMap d)"

definition measurementsOf :: "json list \<Rightarrow> variant list" where
  "measurementsOf vals =
     map measurementOf (filter (\<lambda>jv. \<not> j_isNull (j_index (j_toObject jv) ''value'')) vals)"

text \<open>The loop over the sensors of the detail record: the first sensor whose
  \<open>paramFormula\<close> is the key of the reply gets the measurements, and the loop ends there.\<close>

fun attachMeasurements :: "library \<Rightarrow> string \<Rightarrow> variant list \<Rightarrow> variant list \<Rightarrow> variant list" where
  "attachMeasurements lib key ms [] = []"
| "attachMeasurements lib key ms (x # sensors) =
     (let sensor = v_toMap x in
        if v_toString lib (vget sensor ''paramFormula'') = key
        then VMap (vset sensor ''measurements'' (VList ms)) # sensors
        else x # attachMeasurements lib key ms sensors)"

definition processDataReply :: "library \<Rightarrow> mainwindow \<Rightarrow> reply \<Rightarrow> mainwindow" where
  "processDataReply lib s r =
     (case r of
        Finished doc \<Rightarrow>
          (let obj = j_toObject doc;
               key = j_toString (j_index obj ''key'');
               measurements = measurementsOf (j_toArray (j_index obj ''values''));
               stationId = v_toInt lib (vget (m_stationDetails s) ''stationId'');
               sensors = attachMeasurements lib key measurements
                           (v_toList (vget (m_stationDetails s) ''sensors''));
               s1 = s\<lparr>m_stationDetails := vset (m_stationDetails s) ''sensors'' (VList sensors)\<rparr>;
               s2 = emit stationDetailsChanged s1
           in set_pending stationId (pending s2 stationId - 1) s2)
      | NetworkFailure \<Rightarrow> emit networkError s)"

definition indexOf :: "json \<Rightarrow> qvariantmap" where
  "indexOf doc =
     (let obj = j_toObject doc;
          index = vset [] ''calcDate'' (VString (j_toString (j_index obj ''stCalcDate'')));
          stIndex = j_toObject (j_index obj ''stIndexLevel'');
          index = vset index ''indexLevel'' (VInt (j_toInt (j_index stIndex ''id'')));
          index = vset index ''indexLevelName'' (VString (j_toString (j_index stIndex ''indexLevelName'')))
      in index)"

definition processIndexReply :: "library \<Rightarrow> mainwindow \<Rightarrow> reply \<Rightarrow> mainwindow" where
  "processIndexReply lib s r =
     (case r of
        Finished doc \<Rightarrow>
          (let s1 = s\<lparr>m_stationDetails := vset (m_stationDetails s) ''airQualityIndex'' (VMap (indexOf doc))\<rparr>;
               s2 = emit stationDetailsChanged s1;
               stationId = v_toInt lib (vget (m_stationDetails s2) ''stationId'')
           in set_pending stationId (pending s2 stationId - 1) s2)
      | NetworkFailure \<Rightarrow> emit networkError s)"

section \<open>The list of stations\<close>

subsection \<open>Library functions taken as parameters\<close>

text \<open>
  Beside the record \<open>library\<close>, these functions of Qt's library are parameters of the
  functions that call them:
  \<^item> \<open>td\<close> is \<open>QString::toDouble\<close>: \<open>None\<close> when the text is not a number;
  \<^item> \<open>fmt\<close> prints a \<open>double\<close> as \<open>QString::arg(double)\<close> does;
  \<^item> \<open>lower\<close> is \<open>QString::toLower\<close>;
  \<^item> \<open>fromISO\<close> is \<open>QDateTime::fromString(_, Qt::ISODate)\<close>: the instant in milliseconds,
    \<open>None\<close> for a text that gives an invalid \<open>QDateTime\<close>.
  In \<open>QString("%1 %2").arg(lat).arg(lon)\<close> both arguments are printed numbers, which have
  no place marker in them, so the result is the two numbers with a space between them.
\<close>

definition qs_toDouble :: "(string \<Rightarrow> real option) \<Rightarrow> string \<Rightarrow> real \<times> bool" where
  "qs_toDouble td str = (case td str of None \<Rightarrow> (0, False) | Some d \<Rightarrow> (d, True))"

text \<open>\<open>QString::split(" ")\<close>, which keeps empty parts.\<close>

fun split_sp :: "string \<Rightarrow> string list" where
  "split_sp [] = [[]]"
| "split_sp (c # cs) =
     (if c = CHR '' '' then [] # split_sp cs
      else (case split_sp cs of [] \<Rightarrow> [[c]] | p # ps \<Rightarrow> (c # p) # ps))"

subsection \<open>The distance\<close>

text \<open>The constant \<open>PI\<close> of the program, as its text gives it.\<close>

definition PI :: real where
  "PI = 3.14159265358979323846"

text \<open>
  The formula of the haversine, operation by operation as the program computes it on
  doubles.  The other literals, 180, 2, 1 and 6371, are whole numbers, which a \<open>double\<close>
  holds exactly.
\<close>

definition calculateDistance :: "library \<Rightarrow> double \<Rightarrow> double \<Rightarrow> double \<Rightarrow> double \<Rightarrow> double" where
  "calculateDistance lib lat1 lon1 lat2 lon2 =
     (let R = Some 6371;
          dLat = d_div lib (d_mul lib (d_sub lib lat2 lat1) (d_lit lib PI)) (Some 180);
          dLon = d_div lib (d_mul lib (d_sub lib lon2 lon1) (d_lit lib PI)) (Some 180);
          a = d_add lib
                (d_mul lib (d_sin lib (d_div lib dLat (Some 2))) (d_sin lib (d_div lib dLat (Some 2))))
                (d_mul lib
                   (d_mul lib
                      (d_mul lib (d_cos lib (d_div lib (d_mul lib lat1 (d_lit lib PI)) (Some 180)))
                                 (d_cos lib (d_div lib (d_mul lib lat2 (d_lit lib PI)) (Some 180))))
                      (d_sin lib (d_div lib dLon (Some 2))))
                   (d_sin lib (d_div lib dLon (Some 2))));
          c = d_mul lib (Some 2) (d_atan2 lib (d_sqrt lib a) (d_sqrt lib (d_sub lib (Some 1) a)))
      in d_mul lib R c)"

text \<open>\<open>std::numeric_limits<double>::max()\<close>.\<close>

definition DBL_MAX :: real where
  "DBL_MAX = (2 ^ 53 - 1) * 2 ^ 971"

subsection \<open>The texts of the outcomes\<close>

definition msgNoConnection :: string where
  "msgNoConnection =
     ''Brak po'' @ [CHR 0xC5, CHR 0x82, CHR 0xC4, CHR 0x85] @ ''czenia z internetem/baz''
       @ [CHR 0xC4, CHR 0x85] @ '' danych''"

definition msgNoStationsIn :: "string \<Rightarrow> string" where
  "msgNoStationsIn city =
     ''Nie znaleziono stacji w miejscowo'' @ [CHR 0xC5, CHR 0x9B] @ ''ci '' @ city"

text \<open>The outcome of a nearest search is made of a text with two place markers, by
  \<open>arg\<close> with the name of the station and then \<open>arg\<close> with the distance.\<close>

definition nearestTemplate :: string where
  "nearestTemplate =
     ''Najbli'' @ [CHR 0xC5, CHR 0xBC] @ ''sza stacja: %1, Odleg'' @ [CHR 0xC5, CHR 0x82] @ ''o''
       @ [CHR 0xC5, CHR 0x9B, CHR 0xC4, CHR 0x87] @ '': %2 km''"

definition msgNearest :: "library \<Rightarrow> string \<Rightarrow> real \<Rightarrow> string" where
  "msgNearest lib name minDist = arg_f2 lib (arg_text lib nearestTemplate name) minDist"

definition msgLocationNotFound :: "string \<Rightarrow> string" where
  "msgLocationNotFound location = ''Nie znaleziono lokalizacji: '' @ location"

subsection \<open>The three searches\<close>

definition fetchAllStations :: "mainwindow \<Rightarrow> mainwindow" where
  "fetchAllStations s =
     (let s1 = s\<lparr>m_userLocation := [], m_userAddress := [], m_result := []\<rparr>;
          s2 = emit resultChanged (emit userAddressChanged (emit userLocationChanged s1));
          s3 = emit isFromHistoryChanged (s2\<lparr>m_isFromHistory := False\<rparr>)
      in manager_get GetFindAll s3)"

definition fetchStationsByCity :: "string \<Rightarrow> mainwindow \<Rightarrow> mainwindow" where
  "fetchStationsByCity city s =
     (let s1 = s\<lparr>m_userLocation := [], m_userAddress := [], m_result := city\<rparr>;
          s2 = emit resultChanged (emit userAddressChanged (emit userLocationChanged s1));
          s3 = emit isFromHistoryChanged (s2\<lparr>m_isFromHistory := False\<rparr>)
      in manager_get GetFindAll s3)"

text \<open>
  \<open>QGeoCoordinate(lat, lon)\<close> is invalid unless the latitude is between -90 and 90 and the
  longitude between -180 and 180; \<open>QGeoCoordinate()\<close> is invalid.  A coordinate is
  \<open>None\<close> when invalid.
\<close>

definition QGeoCoordinate :: "real \<Rightarrow> real \<Rightarrow> (real \<times> real) option" where
  "QGeoCoordinate lat lon =
     (if - 90 \<le> lat \<and> lat \<le> 90 \<and> - 180 \<le> lon \<and> lon \<le> 180 then Some (lat, lon) else None)"

text \<open>The lookup of an address waits for its reply, which is the argument \<open>geo\<close> here.\<close>

definition getLocationCoords :: "(string \<Rightarrow> real option) \<Rightarrow> reply \<Rightarrow> (real \<times> real) option" where
  "getLocationCoords td geo =
     (case geo of
        Finished doc \<Rightarrow>
          (case j_toArray doc of
             jv # _ \<Rightarrow>
               (let obj = j_toObject jv
                in QGeoCoordinate (fst (qs_toDouble td (j_toString (j_index obj ''lat''))))
                                  (fst (qs_toDouble td (j_toString (j_index obj ''lon'')))))
           | [] \<Rightarrow> None)
      | NetworkFailure \<Rightarrow> None)"

definition fetchNearestStation ::
  "(string \<Rightarrow> real option) \<Rightarrow> (real \<Rightarrow> string) \<Rightarrow> reply \<Rightarrow> string \<Rightarrow> mainwindow \<Rightarrow> mainwindow" where
  "fetchNearestStation td fmt geo location s =
     (case getLocationCoords td geo of
        Some (latitude, longitude) \<Rightarrow>
          (let s1 = s\<lparr>m_userLocation :=
                        vset (vset (m_userLocation s) ''lat'' (VDouble latitude)) ''lon'' (VDouble longitude)\<rparr>;
               s2 = emit userLocationChanged s1;
               s3 = emit userAddressChanged (s2\<lparr>m_userAddress := location\<rparr>);
               s4 = emit resultChanged (s3\<lparr>m_result := fmt latitude @ '' '' @ fmt longitude\<rparr>);
               s5 = emit isFromHistoryChanged (s4\<lparr>m_isFromHistory := False\<rparr>)
           in manager_get GetFindAll s5)
      | None \<Rightarrow>
          emit networkError (emit resultChanged (s\<lparr>m_result := msgLocationNotFound location\<rparr>)))"

subsection \<open>Reading the reply\<close>

text \<open>One record of the reply: \<open>None\<close> where the loop says \<open>continue\<close>.\<close>

definition parseStation :: "(string \<Rightarrow> real option) \<Rightarrow> json \<Rightarrow> variant option" where
  "parseStation td jv =
     (let obj = j_toObject jv in
      if j_isNull (j_index obj ''id'') \<or> j_isNull (j_index obj ''gegrLat'')
           \<or> j_isNull (j_index obj ''gegrLon'')
      then None
      else
        (let (lat, latOk) = qs_toDouble td (j_toString (j_index obj ''gegrLat''));
             (lon, lonOk) = qs_toDouble td (j_toString (j_index obj ''gegrLon''))
         in if \<not> latOk \<or> \<not> lonOk then None
            else
              (let city = j_toObject (j_index obj ''city'');
                   commune = j_toObject (j_index city ''commune'')
               in Some (VMap
                    [(''id'', VInt (j_toInt (j_index obj ''id''))),
                     (''name'', VString (j_toString (j_index obj ''stationName''))),
                     (''lat'', VDouble lat),
                     (''lon'', VDouble lon),
                     (''cityName'', VString (j_toString (j_index city ''name''))),
                     (''communeName'', VString (j_toString (j_index commune ''communeName''))),
                     (''districtName'', VString (j_toString (j_index commune ''districtName''))),
                     (''provinceName'', VString (j_toString (j_index commune ''provinceName''))),
                     (''addressStreet'', VString (j_toString (j_index obj ''addressStreet''))),
                     (''savedToHistory'', VBool False)]))))"

definition parseStations :: "(string \<Rightarrow> real option) \<Rightarrow> json \<Rightarrow> variant list" where
  "parseStations td doc = List.map_filter (parseStation td) (j_toArray doc)"

subsection \<open>Choosing among the parsed stations\<close>

text \<open>The chain of tests on \<open>m_result\<close> that follows the parsing loop, as a function of its
  own.\<close>

datatype mode = AllStations | ByCity | Nearest

definition selectionMode :: "string \<Rightarrow> mode" where
  "selectionMode res =
     (if res = [] then AllStations
      else if CHR '' '' \<notin> set res then ByCity
      else Nearest)"

definition filterByCity :: "library \<Rightarrow> string \<Rightarrow> variant list \<Rightarrow> variant list" where
  "filterByCity lib city stations =
     map (\<lambda>station. VMap (v_toMap station))
       (filter (\<lambda>station. v_toString lib (vget (v_toMap station) ''cityName'') = city) stations)"

definition distanceTo :: "library \<Rightarrow> real \<Rightarrow> real \<Rightarrow> variant \<Rightarrow> double" where
  "distanceTo lib lat lon station =
     calculateDistance lib (Some lat) (Some lon)
       (Some (v_toDouble lib (vget (v_toMap station) ''lat'')))
       (Some (v_toDouble lib (vget (v_toMap station) ''lon'')))"

text \<open>The loop over the stations.  The test \<open>dist < minDist\<close> is false when \<open>dist\<close> is not a
  number.\<close>

fun nearestScan :: "library \<Rightarrow> real \<Rightarrow> real \<Rightarrow> variant list \<Rightarrow> real \<times> qvariantmap \<Rightarrow> real \<times> qvariantmap" where
  "nearestScan lib lat lon [] acc = acc"
| "nearestScan lib lat lon (station # stations) (minDist, closest) =
     (case distanceTo lib lat lon station of
        Some d \<Rightarrow>
          if d < minDist
          then nearestScan lib lat lon stations (d, vset (v_toMap station) ''dist'' (VDouble d))
          else nearestScan lib lat lon stations (minDist, closest)
      | None \<Rightarrow> nearestScan lib lat lon stations (minDist, closest))"

definition processStationsReply ::
  "(string \<Rightarrow> real option) \<Rightarrow> library \<Rightarrow> mainwindow \<Rightarrow> reply \<Rightarrow> mainwindow" where
  "processStationsReply td lib s r =
     (let s0 = s\<lparr>m_stations := []\<rparr> in
      case r of
        Finished doc \<Rightarrow>
          (let s1 = s0\<lparr>m_stations := parseStations td doc\<rparr>;
               s2 =
                 (case selectionMode (m_result s1) of
                    AllStations \<Rightarrow> s1
                  | ByCity \<Rightarrow>
                      (let city = m_result s1;
                           filteredStations = filterByCity lib city (m_stations s1)
                       in if filteredStations = []
                          then s1\<lparr>m_stations := filteredStations, m_result := msgNoStationsIn city\<rparr>
                          else s1\<lparr>m_stations := filteredStations, m_result := []\<rparr>)
                  | Nearest \<Rightarrow>
                      (let coords = split_sp (m_result s1);
                           lat = fst (qs_toDouble td (coords ! 0));
                           lon = fst (qs_toDouble td (coords ! 1));
                           (minDist, closest) = nearestScan lib lat lon (m_stations s1) (DBL_MAX, [])
                       in s1\<lparr>m_stations := [VMap closest],
                              m_result := msgNearest lib (v_toString lib (vget closest ''name'')) minDist\<rparr>))
           in emit resultChanged (emit stationsChanged s2))
      | NetworkFailure \<Rightarrow>
          emit networkError (emit resultChanged (s0\<lparr>m_result := msgNoConnection\<rparr>)))"

section \<open>Replies as they arrive\<close>

text \<open>The constructor connects \<open>manager\<close>'s \<open>finished\<close> signal to a dispatch on the URL of the
  reply: which of the four paths it contains decides the slot.  (The functions connected
  to \<open>errorOccurred\<close> of single replies emit \<open>networkError\<close> and do nothing else; they are not
  part of the model.)\<close>

datatype arrival =
    StationsArrived reply
  | SensorsArrived reply
  | DataArrived reply
  | IndexArrived reply

definition deliver ::
  "(string \<Rightarrow> real option) \<Rightarrow> library \<Rightarrow> mainwindow \<Rightarrow> arrival \<Rightarrow> mainwindow" where
  "deliver td lib s a =
     (case a of
        StationsArrived r \<Rightarrow> processStationsReply td lib s r
      | SensorsArrived r \<Rightarrow> processSensorsReply lib s r
      | DataArrived r \<Rightarrow> processDataReply lib s r
      | IndexArrived r \<Rightarrow> processIndexReply lib s r)"

definition run ::
  "(string \<Rightarrow> real option) \<Rightarrow> library \<Rightarrow> mainwindow \<Rightarrow> arrival list \<Rightarrow> mainwindow" where
  "run td lib s arrivals = foldl (deliver td lib) s arrivals"

text \<open>
  The successful replies of one fetch of details, in an order in which they can arrive:
  the reply with the index anywhere, the reply with the sensors before the replies with
  measurements (their requests are issued when it is processed), and these in the order
  \<open>dataDocs\<close>.
\<close>

definition isIndexArrival :: "arrival \<Rightarrow> bool" where
  "isIndexArrival a = (case a of IndexArrived _ \<Rightarrow> True | _ \<Rightarrow> False)"

definition detailArrival :: "json \<Rightarrow> json \<Rightarrow> json list \<Rightarrow> arrival list \<Rightarrow> bool" where
  "detailArrival sensorsDoc indexDoc dataDocs arrivals =
     (filter isIndexArrival arrivals = [IndexArrived (Finished indexDoc)]
      \<and> filter (\<lambda>a. \<not> isIndexArrival a) arrivals
          = SensorsArrived (Finished sensorsDoc) # map (\<lambda>d. DataArrived (Finished d)) dataDocs)"

definition sensorFormula :: "library \<Rightarrow> json \<Rightarrow> string" where
  "sensorFormula lib jv = v_toString lib (vget (sensorOf jv) ''paramFormula'')"

definition dataKey :: "json \<Rightarrow> string" where
  "dataKey doc = j_toString (j_index (j_toObject doc) ''key'')"

definition dataMeasurements :: "json \<Rightarrow> variant list" where
  "dataMeasurements doc = measurementsOf (j_toArray (j_index (j_toObject doc) ''values''))"

section \<open>The history\<close>

text \<open>The station with the given identifier that the loop over \<open>m_stations\<close> meets first: the
  loop ends there, by \<open>return\<close> or by \<open>break\<close>.\<close>

fun firstStationWithId :: "library \<Rightarrow> int \<Rightarrow> variant list \<Rightarrow> nat option" where
  "firstStationWithId lib stationId [] = None"
| "firstStationWithId lib stationId (x # xs) =
     (if v_toInt lib (vget (v_toMap x) ''id'') = stationId then Some 0
      else map_option Suc (firstStationWithId lib stationId xs))"

text \<open>\<open>now\<close> is the text of \<open>QDateTime::currentDateTime()\<close> in ISO format.\<close>

definition saveStationToHistory :: "library \<Rightarrow> string \<Rightarrow> int \<Rightarrow> mainwindow \<Rightarrow> mainwindow" where
  "saveStationToHistory lib now stationId s =
     (case firstStationWithId lib stationId (m_stations s) of
        None \<Rightarrow> s
      | Some i \<Rightarrow>
          (let station = v_toMap (m_stations s ! i) in
           if v_contains station ''savedToHistory'' \<and> v_toBool lib (vget station ''savedToHistory'')
           then s
           else
             (let historyEntry = vset station ''airQualityIndex'' (vget (m_stationDetails s) ''airQualityIndex'');
                  historyEntry = vset historyEntry ''sensors'' (vget (m_stationDetails s) ''sensors'');
                  historyEntry = vset historyEntry ''timestamp'' (VString now);
                  history = (case history_file s of
                               Some doc \<Rightarrow> v_toList (j_toVariant doc)
                             | None \<Rightarrow> []);
                  history = VMap historyEntry # history;
                  s1 = (if file_writable s
                        then s\<lparr>history_file := Some (JArray (map j_fromVariant history))\<rparr>
                        else s);
                  s2 = emit historyChanged (s1\<lparr>m_history := history\<rparr>);
                  station = vset station ''savedToHistory'' (VBool True);
                  s3 = s2\<lparr>m_stations := (m_stations s2)[i := VMap station]\<rparr>
              in emit stationsChanged s3)))"

definition displayStationFromHistory :: "int \<Rightarrow> mainwindow \<Rightarrow> mainwindow" where
  "displayStationFromHistory index s =
     (if index < 0 \<or> int (length (m_history s)) \<le> index then s
      else
        (let station = v_toMap (m_history s ! nat index);
             station = vset station ''savedToHistory'' (VBool True);
             s1 = s\<lparr>m_stations := [VMap station], m_userLocation := [], m_userAddress := []\<rparr>;
             s2 = emit userAddressChanged (emit userLocationChanged s1);
             s3 = s2\<lparr>m_stationDetails := vset station ''stationId'' (vget station ''id'')\<rparr>;
             s4 = emit stationDetailsChanged s3;
             s5 = emit isFromHistoryChanged (s4\<lparr>m_isFromHistory := True\<rparr>)
         in emit stationsChanged s5))"

definition loadHistory :: "mainwindow \<Rightarrow> mainwindow" where
  "loadHistory s =
     emit historyChanged
       (case history_file s of
          Some doc \<Rightarrow> s\<lparr>m_history := v_toList (j_toVariant doc)\<rparr>
        | None \<Rightarrow> s)"

text \<open>The constructor, for a given file \<open>history.json\<close>.\<close>

definition MainWindow :: "json option \<Rightarrow> bool \<Rightarrow> mainwindow" where
  "MainWindow file writable =
     loadHistory
       \<lparr>m_result = [], m_stations = [], m_userLocation = [], m_userAddress = [],
        m_stationDetails = [], m_history = [], m_isFromHistory = False,
        m_pendingRequests = Map.empty, requests = [], emitted = [],
        history_file = file, file_writable = writable\<rparr>"



definition matchesCity :: "library \<Rightarrow> (string \<Rightarrow> string) \<Rightarrow> string \<Rightarrow> variant \<Rightarrow> bool" where
  "matchesCity lib lower city entry =
     (lower (v_toString lib (vget (v_toMap entry) ''cityName'')) = lower city)"

definition entryId :: "library \<Rightarrow> variant \<Rightarrow> int" where
  "entryId lib entry = v_toInt lib (vget (v_toMap entry) ''id'')"

definition entryTime :: "library \<Rightarrow> (string \<Rightarrow> int option) \<Rightarrow> variant \<Rightarrow> int option" where
  "entryTime lib fromISO entry = fromISO (v_toString lib (vget (v_toMap entry) ''timestamp''))"



section \<open>Notions used in the statements and proofs\<close>

text \<open>The requests for measurements that the loop over the sensors issues, one for each
  element of the reply and in its order.\<close>

definition sensorRequests :: "library \<Rightarrow> json list \<Rightarrow> request list" where
  "sensorRequests lib js = map (\<lambda>jv. GetData (v_toInt lib (vget (sensorOf jv) ''id''))) js"

text \<open>What one arrival does to the counter of the station being fetched, to the requests
  issued, and to the two entries of the detail record.\<close>

definition delta :: "arrival \<Rightarrow> int" where
  "delta a = (case a of
      SensorsArrived (Finished doc) \<Rightarrow> int (length (j_toArray doc)) - 1
    | DataArrived (Finished doc) \<Rightarrow> - 1
    | IndexArrived (Finished doc) \<Rightarrow> - 1
    | _ \<Rightarrow> 0)"

definition isDetail :: "arrival \<Rightarrow> bool" where
  "isDetail a = (case a of StationsArrived _ \<Rightarrow> False | _ \<Rightarrow> True)"

definition arrivalRequests :: "library \<Rightarrow> arrival \<Rightarrow> request list" where
  "arrivalRequests lib a =
     (case a of SensorsArrived (Finished doc) \<Rightarrow> sensorRequests lib (j_toArray doc) | _ \<Rightarrow> [])"

definition sensorsAfter :: "library \<Rightarrow> variant \<Rightarrow> arrival \<Rightarrow> variant" where
  "sensorsAfter lib v a = (case a of
      SensorsArrived (Finished doc) \<Rightarrow> VList (map (\<lambda>jv. VMap (sensorOf jv)) (j_toArray doc))
    | DataArrived (Finished doc) \<Rightarrow>
        VList (attachMeasurements lib (dataKey doc) (dataMeasurements doc) (v_toList v))
    | _ \<Rightarrow> v)"

definition indexAfter :: "variant \<Rightarrow> arrival \<Rightarrow> variant" where
  "indexAfter v a = (case a of IndexArrived (Finished doc) \<Rightarrow> VMap (indexOf doc) | _ \<Rightarrow> v)"

definition formulaOf :: "library \<Rightarrow> variant \<Rightarrow> string" where
  "formulaOf lib x = v_toString lib (vget (v_toMap x) ''paramFormula'')"

definition withMeasurements :: "variant list \<Rightarrow> variant \<Rightarrow> variant" where
  "withMeasurements ms x = VMap (vset (v_toMap x) ''measurements'' (VList ms))"

definition attachAll :: "library \<Rightarrow> variant list \<Rightarrow> json list \<Rightarrow> variant list" where
  "attachAll lib S docs = foldl (\<lambda>S d. attachMeasurements lib (dataKey d) (dataMeasurements d) S) S docs"

text \<open>The query of a nearest search as the specification describes it: two tokens
  separated by one space, both of them numbers.\<close>

definition twoNumericTokens :: "(string \<Rightarrow> real option) \<Rightarrow> string \<Rightarrow> bool" where
  "twoNumericTokens td q = (case split_sp q of [a, b] \<Rightarrow> td a \<noteq> None \<and> td b \<noteq> None | _ \<Rightarrow> False)"


section \<open>Example data\<close>

text \<open>
  A conversion for the examples: a number written with digits and at most one decimal
  point between them, on which \<open>QString::toDouble\<close> gives the same value.  The theorems
  hold for every conversion; the examples run the program with this one.
\<close>

definition digitOf :: "char \<Rightarrow> nat option" where
  "digitOf c =
     map_of [(CHR ''0'', 0), (CHR ''1'', 1), (CHR ''2'', 2), (CHR ''3'', 3), (CHR ''4'', 4),
             (CHR ''5'', 5), (CHR ''6'', 6), (CHR ''7'', 7), (CHR ''8'', 8), (CHR ''9'', 9)] c"

fun digitsValue :: "nat \<Rightarrow> string \<Rightarrow> nat option" where
  "digitsValue acc [] = Some acc"
| "digitsValue acc (c # cs) =
     (case digitOf c of None \<Rightarrow> None | Some d \<Rightarrow> digitsValue (10 * acc + d) cs)"

definition plainDecimal :: "string \<Rightarrow> real option" where
  "plainDecimal str =
     (let whole = takeWhile (\<lambda>c. c \<noteq> CHR ''.'') str;
          rest = dropWhile (\<lambda>c. c \<noteq> CHR ''.'') str
      in if whole = [] then None
         else (case rest of
                 [] \<Rightarrow> map_option real (digitsValue 0 whole)
               | _ # fracpart \<Rightarrow>
                   (if fracpart = [] then None
                    else (case (digitsValue 0 whole, digitsValue 0 fracpart) of
                            (Some w, Some f) \<Rightarrow> Some (real w + real f / 10 ^ length fracpart)
                          | _ \<Rightarrow> None))))"

text \<open>The other library functions of the examples: the formatters on the numbers the
  examples print (\<open>exFormat2\<close> with two decimals), lower case for the letters the city
  names of the examples use, and the instants of two timestamps.\<close>

definition exFormat :: "real \<Rightarrow> string" where
  "exFormat d = (if d = 522 / 10 then ''52.2'' else if d = 21 then ''21'' else ''0'')"

definition exFormat2 :: "real \<Rightarrow> string" where
  "exFormat2 d = (if d = 0 then ''0.00'' else ''1.00'')"

definition exLower :: "string \<Rightarrow> string" where
  "exLower str = map (\<lambda>c. if c = CHR ''W'' then CHR ''w'' else if c = CHR ''R'' then CHR ''r'' else c) str"

definition exFromISO :: "string \<Rightarrow> int option" where
  "exFromISO str =
     map_of [(''2023-10-01T12:00:00'', 1696161600000), (''2023-10-02T12:00:00'', 1696248000000)] str"

text \<open>
  The record of the examples.  The one conversion that the examples call is \<open>toInt\<close> of a
  whole number stored as a \<open>double\<close>, which gives that number.  A text of digits is
  converted to its number; no example converts a number to a text, for which this record
  gives the empty text.  The two \<open>arg\<close> put the argument in the place of every \<open>%1\<close>, or
  of every \<open>%2\<close>, as Qt does for a text whose place markers with the lowest number are
  these.  The arithmetic is the arithmetic of the real numbers, with a square root that
  is not a number below 0.  The one distance that the examples compute is the distance
  from latitude 0 and longitude 0 to the same point, where the result of every operation
  is 0 or 1, on the machine as on the real numbers.
\<close>

fun putArg :: "char \<Rightarrow> string \<Rightarrow> string \<Rightarrow> string" where
  "putArg n a (c # d # cs) =
     (if c = CHR ''%'' \<and> d = n then a @ putArg n a cs else c # putArg n a (d # cs))"
| "putArg n a cs = cs"

definition exact2 :: "(real \<Rightarrow> real \<Rightarrow> real) \<Rightarrow> double \<Rightarrow> double \<Rightarrow> double" where
  "exact2 f x y = (case x of None \<Rightarrow> None | Some a \<Rightarrow> (case y of None \<Rightarrow> None | Some b \<Rightarrow> Some (f a b)))"

definition atan2 :: "real \<Rightarrow> real \<Rightarrow> real" where
  "atan2 y x =
     (if 0 < x then arctan (y / x)
      else if x < 0 \<and> 0 \<le> y then arctan (y / x) + pi
      else if x < 0 \<and> y < 0 then arctan (y / x) - pi
      else if 0 < y then pi / 2
      else if y < 0 then - pi / 2
      else 0)"

definition exLib :: library where
  "exLib =
     \<lparr>toInt_double = round,
      toInt_text = (\<lambda>str. case digitsValue 0 str of None \<Rightarrow> 0 | Some n \<Rightarrow> int n),
      toString_int = (\<lambda>i. []),
      toString_double = (\<lambda>d. []),
      toDouble_text = (\<lambda>str. case plainDecimal str of None \<Rightarrow> 0 | Some d \<Rightarrow> d),
      toBool_text = (\<lambda>str. str \<noteq> [] \<and> str \<noteq> ''0'' \<and> str \<noteq> ''false''),
      arg_text = (\<lambda>t a. putArg CHR ''1'' a t),
      arg_f2 = (\<lambda>t d. putArg CHR ''2'' (exFormat2 d) t),
      d_lit = Some,
      d_add = exact2 (+),
      d_sub = exact2 (-),
      d_mul = exact2 (*),
      d_div = exact2 (/),
      d_sin = map_option sin,
      d_cos = map_option cos,
      d_sqrt = (\<lambda>x. case x of None \<Rightarrow> None | Some a \<Rightarrow> if a < 0 then None else Some (sqrt a)),
      d_atan2 = exact2 atan2\<rparr>"

text \<open>A reply with the list of stations: two stations, and a third whose latitude is not a
  number.\<close>

definition exStation :: "int \<Rightarrow> string \<Rightarrow> string \<Rightarrow> string \<Rightarrow> string \<Rightarrow> json" where
  "exStation n name lat lon city =
     JObject [(''id'', JDouble (of_int n)), (''stationName'', JString name),
              (''gegrLat'', JString lat), (''gegrLon'', JString lon),
              (''city'', JObject [(''id'', JDouble 10), (''name'', JString city),
                 (''commune'', JObject [(''communeName'', JString city),
                                        (''districtName'', JString city),
                                        (''provinceName'', JString ''MAZOWIECKIE'')])]),
              (''addressStreet'', JString ''ul. Wokalna 1'')]"

definition exStationsDoc :: json where
  "exStationsDoc =
     JArray [exStation 1 ''Warszawa-Ursynow'' ''52.2'' ''21.0'' ''Warszawa'',
             exStation 2 ''Radom-Tochtermana'' ''51.4'' ''21.1'' ''Radom'',
             exStation 3 ''Bez-szerokosci'' ''abc'' ''21.1'' ''Radom'']"

text \<open>A reply with one station, at latitude 0 and longitude 0.\<close>

definition exOriginDoc :: json where
  "exOriginDoc = JArray [exStation 4 ''Zero'' ''0'' ''0'' ''Radom'']"

text \<open>The replies of a fetch of details: two sensors, their measurements (one of them
  null), and the index.\<close>

definition exSensor :: "int \<Rightarrow> string \<Rightarrow> json" where
  "exSensor n formula =
     JObject [(''id'', JDouble (of_int n)), (''stationId'', JDouble 1),
              (''param'', JObject [(''paramName'', JString formula), (''paramFormula'', JString formula)])]"

definition exSensorsDoc :: json where
  "exSensorsDoc = JArray [exSensor 11 ''PM10'', exSensor 12 ''NO2'']"

definition exData :: "string \<Rightarrow> real \<Rightarrow> json" where
  "exData key x =
     JObject [(''key'', JString key),
              (''values'', JArray [JObject [(''date'', JString ''2023-10-01 12:00:00''), (''value'', JNull)],
                                   JObject [(''date'', JString ''2023-10-01 11:00:00''), (''value'', JDouble x)]])]"

definition exIndexDoc :: json where
  "exIndexDoc =
     JObject [(''id'', JDouble 1), (''stCalcDate'', JString ''2023-10-01 12:20:00''),
              (''stIndexLevel'', JObject [(''id'', JDouble 1), (''indexLevelName'', JString ''Dobry'')])]"

text \<open>Two sensors that measure the same parameter.\<close>

definition exTwinSensorsDoc :: json where
  "exTwinSensorsDoc = JArray [exSensor 11 ''PM10'', exSensor 12 ''PM10'']"

text \<open>The history of the repository's test: two entries of station 1 in Warszawa, the second
  the newer one, and one entry of station 2.\<close>

definition exEntry :: "int \<Rightarrow> string \<Rightarrow> string \<Rightarrow> string \<Rightarrow> json" where
  "exEntry n city name stamp =
     JObject [(''id'', JDouble (of_int n)), (''cityName'', JString city), (''name'', JString name),
              (''timestamp'', JString stamp)]"

definition exHistoryDoc :: json where
  "exHistoryDoc =
     JArray [exEntry 1 ''Warszawa'' ''Stacja Warszawa 1'' ''2023-10-01T12:00:00'',
             exEntry 1 ''Warszawa'' ''Stacja Warszawa 1 (nowsza)'' ''2023-10-02T12:00:00'',
             exEntry 2 ''Radom'' ''Stacja Radom 1'' ''2023-10-01T12:00:00'']"

text \<open>A reply of the lookup of an address.\<close>

definition exGeoDoc :: json where
  "exGeoDoc = JArray [JObject [(''lat'', JString ''52.2''), (''lon'', JString ''21.0'')]]"

text \<open>States of the examples: the list of all stations loaded with no history file; a
  nearest search whose address was found; a station shown from the history of the
  repository's test.\<close>

definition exLoaded :: mainwindow where
  "exLoaded =
     processStationsReply plainDecimal exLib (fetchAllStations (MainWindow None True))
       (Finished exStationsDoc)"

definition exNearestAsked :: mainwindow where
  "exNearestAsked =
     fetchNearestStation plainDecimal exFormat (Finished exGeoDoc) ''Warszawa'' (MainWindow None True)"

definition exFromHistory :: mainwindow where
  "exFromHistory = displayStationFromHistory 0 (MainWindow (Some exHistoryDoc) True)"

text \<open>The four replies of a fetch of details, the index first and the measurements in the
  order opposite to the sensors'; and four replies for the two sensors of the same
  parameter.\<close>

definition exArrivals :: "arrival list" where
  "exArrivals =
     [IndexArrived (Finished exIndexDoc), SensorsArrived (Finished exSensorsDoc),
      DataArrived (Finished (exData ''NO2'' 12)), DataArrived (Finished (exData ''PM10'' 30))]"

definition exTwinArrivals :: "arrival list" where
  "exTwinArrivals =
     [SensorsArrived (Finished exTwinSensorsDoc), IndexArrived (Finished exIndexDoc),
      DataArrived (Finished (exData ''PM10'' 30)), DataArrived (Finished (exData ''PM10'' 31))]"

section \<open>Basic facts about the values\<close>

lemma map_of_vset: "map_of (vset m k v) = (map_of m)(k \<mapsto> v)"
  by (induction m) (auto simp: fun_eq_iff)

lemma vget_vset: "vget (vset m k v) k' = (if k' = k then v else vget m k')"
  by (simp add: vget_def map_of_vset)

lemma v_contains_vset: "v_contains (vset m k v) k' = (k' = k \<or> v_contains m k')"
  by (simp add: v_contains_def map_of_vset)

lemma v_toMap_VMap [simp]: "v_toMap (VMap m) = m"
  by (simp add: v_toMap_def)

lemma v_toList_VList [simp]: "v_toList (VList xs) = xs"
  by (simp add: v_toList_def)

lemma v_toInt_VInt [simp]: "v_toInt lib (VInt i) = i"
  by (simp add: v_toInt_def)

lemmas json_defs = j_index_def j_isNull_def j_toObject_def j_toArray_def j_toString_def
  j_toDouble_def j_toInt_def

lemmas variant_defs = vget_def v_contains_def v_toMap_def v_toList_def v_toString_def v_toInt_def
  v_toDouble_def v_toBool_def

lemmas state_defs = MainWindow_def loadHistory_def emit_def manager_get_def fetchAllStations_def
  fetchStationsByCity_def fetchNearestStation_def getLocationCoords_def QGeoCoordinate_def
  qs_toDouble_def displayStationFromHistory_def

section \<open>The examples evaluated\<close>

lemmas example_defs = exStationsDoc_def exStation_def exOriginDoc_def exSensorsDoc_def exSensor_def
  exData_def exIndexDoc_def exTwinSensorsDoc_def exHistoryDoc_def exEntry_def exGeoDoc_def
  plainDecimal_def digitOf_def exFormat_def exFormat2_def exLower_def exFromISO_def exLib_def
  exact2_def

lemma ex_parsed:
  "parseStations plainDecimal exStationsDoc =
     [VMap [(''id'', VInt 1), (''name'', VString ''Warszawa-Ursynow''),
            (''lat'', VDouble (522 / 10)), (''lon'', VDouble 21),
            (''cityName'', VString ''Warszawa''), (''communeName'', VString ''Warszawa''),
            (''districtName'', VString ''Warszawa''), (''provinceName'', VString ''MAZOWIECKIE''),
            (''addressStreet'', VString ''ul. Wokalna 1''), (''savedToHistory'', VBool False)],
      VMap [(''id'', VInt 2), (''name'', VString ''Radom-Tochtermana''),
            (''lat'', VDouble (514 / 10)), (''lon'', VDouble (211 / 10)),
            (''cityName'', VString ''Radom''), (''communeName'', VString ''Radom''),
            (''districtName'', VString ''Radom''), (''provinceName'', VString ''MAZOWIECKIE''),
            (''addressStreet'', VString ''ul. Wokalna 1''), (''savedToHistory'', VBool False)]]"
  by (simp add: parseStations_def parseStation_def List.map_filter_simps json_defs example_defs
      qs_toDouble_def)

lemma ex_loaded_stations: "m_stations exLoaded = parseStations plainDecimal exStationsDoc"
  by (simp add: exLoaded_def processStationsReply_def fetchAllStations_def MainWindow_def
      loadHistory_def emit_def manager_get_def selectionMode_def Let_def)

lemma ex_city_asked:
  "m_result (fetchStationsByCity city (MainWindow None True)) = city"
  "emitted (fetchStationsByCity city (MainWindow None True))
     = [historyChanged, userLocationChanged, userAddressChanged, resultChanged, isFromHistoryChanged]"
  by (simp_all add: state_defs)

lemma ex_geo: "getLocationCoords plainDecimal (Finished exGeoDoc) = Some (522 / 10, 21)"
  by (simp add: getLocationCoords_def QGeoCoordinate_def qs_toDouble_def json_defs example_defs)

lemma ex_nearest_asked: "m_result exNearestAsked = ''52.2 21''"
  by (simp add: exNearestAsked_def fetchNearestStation_def ex_geo emit_def manager_get_def
      exFormat_def Let_def)

lemma ex_arrival:
  "detailArrival exSensorsDoc exIndexDoc [exData ''NO2'' 12, exData ''PM10'' 30] exArrivals"
  by (simp add: detailArrival_def exArrivals_def isIndexArrival_def)

lemma ex_sensors:
  "j_toArray exSensorsDoc = [exSensor 11 ''PM10'', exSensor 12 ''NO2'']"
  "sensorFormula exLib (exSensor n f) = f"
  "dataKey (exData k x) = k"
  by (simp_all add: exSensorsDoc_def j_toArray_def sensorFormula_def sensorOf_def exSensor_def
      dataKey_def exData_def Let_def vget_def j_index_def j_toObject_def j_toString_def v_toString_def)

lemma ex_twin_sensors:
  "j_toArray exTwinSensorsDoc = [exSensor 11 ''PM10'', exSensor 12 ''PM10'']"
  by (simp add: exTwinSensorsDoc_def j_toArray_def)


lemma ex_origin_distance:
  "calculateDistance exLib (Some 0) (Some 0) (Some 0) (Some 0) = Some 0"
  by (simp add: calculateDistance_def exLib_def exact2_def atan2_def)

section \<open>Reading the list of stations\<close>

lemma parseStation_None_iff:
  "parseStation td jv = None \<longleftrightarrow>
     (j_index (j_toObject jv) ''id'' = JNull \<or> j_index (j_toObject jv) ''gegrLat'' = JNull
      \<or> j_index (j_toObject jv) ''gegrLon'' = JNull
      \<or> td (j_toString (j_index (j_toObject jv) ''gegrLat'')) = None
      \<or> td (j_toString (j_index (j_toObject jv) ''gegrLon'')) = None)"
  by (auto simp: parseStation_def Let_def j_isNull_def qs_toDouble_def split: option.splits)

lemma parseStation_Some:
  assumes "parseStation td jv = Some st"
  shows "\<exists>lat lon. td (j_toString (j_index (j_toObject jv) ''gegrLat'')) = Some lat
      \<and> td (j_toString (j_index (j_toObject jv) ''gegrLon'')) = Some lon
      \<and> st = VMap
          [(''id'', VInt (j_toInt (j_index (j_toObject jv) ''id''))),
           (''name'', VString (j_toString (j_index (j_toObject jv) ''stationName''))),
           (''lat'', VDouble lat),
           (''lon'', VDouble lon),
           (''cityName'', VString (j_toString (j_index (j_toObject (j_index (j_toObject jv) ''city'')) ''name''))),
           (''communeName'', VString (j_toString (j_index (j_toObject
               (j_index (j_toObject (j_index (j_toObject jv) ''city'')) ''commune'')) ''communeName''))),
           (''districtName'', VString (j_toString (j_index (j_toObject
               (j_index (j_toObject (j_index (j_toObject jv) ''city'')) ''commune'')) ''districtName''))),
           (''provinceName'', VString (j_toString (j_index (j_toObject
               (j_index (j_toObject (j_index (j_toObject jv) ''city'')) ''commune'')) ''provinceName''))),
           (''addressStreet'', VString (j_toString (j_index (j_toObject jv) ''addressStreet''))),
           (''savedToHistory'', VBool False)]"
  using assms
  by (auto simp: parseStation_def Let_def qs_toDouble_def split: option.splits if_splits)

lemma absent_city_gives_empty:
  assumes "map_of (j_toObject jv) ''city'' = None"
  shows "j_toString (j_index (j_toObject (j_index (j_toObject jv) ''city'')) ''name'') = []"
    and "j_toString (j_index (j_toObject (j_index (j_toObject (j_index (j_toObject jv) ''city'')) ''commune'')) k) = []"
  using assms by (simp_all add: j_index_def j_toObject_def j_toString_def)

lemma absent_commune_gives_empty:
  assumes "map_of (j_toObject (j_index (j_toObject jv) ''city'')) ''commune'' = None"
  shows "j_toString (j_index (j_toObject (j_index (j_toObject (j_index (j_toObject jv) ''city'')) ''commune'')) k) = []"
  using assms by (simp add: j_index_def j_toObject_def j_toString_def)

lemma parseStations_append:
  "parseStations td (JArray (xs @ ys)) = parseStations td (JArray xs) @ parseStations td (JArray ys)"
  by (simp add: parseStations_def j_toArray_def List.map_filter_def)

lemma parseStations_Cons:
  "parseStations td (JArray (jv # ys))
     = (case parseStation td jv of None \<Rightarrow> [] | Some st \<Rightarrow> [st]) @ parseStations td (JArray ys)"
  by (simp add: parseStations_def j_toArray_def List.map_filter_def split: option.splits)

lemma parseStations_mem:
  "st \<in> set (parseStations td doc) \<longleftrightarrow> (\<exists>jv \<in> set (j_toArray doc). parseStation td jv = Some st)"
  by (force simp: parseStations_def List.map_filter_def image_iff)

text \<open>
  C7.  A record of the reply becomes a station exactly when its \<open>id\<close>, \<open>gegrLat\<close> and
  \<open>gegrLon\<close> are not null (an absent key reads as null) and both coordinate texts are
  numbers; any other record is skipped, and the records before and after it are read all
  the same.  A record that has no \<open>city\<close> object, or whose city has no \<open>commune\<close> object,
  still gives a station, whose names of the city, or of the commune, the district and the
  province, are empty.  So every station of the parsed list carries the latitude and the
  longitude that the conversion made of the two texts of its record.
\<close>

theorem station_parser_drops_records_without_coordinates:
  "(parseStation td jv = None \<longleftrightarrow>
      (j_index (j_toObject jv) ''id'' = JNull \<or> j_index (j_toObject jv) ''gegrLat'' = JNull
       \<or> j_index (j_toObject jv) ''gegrLon'' = JNull
       \<or> td (j_toString (j_index (j_toObject jv) ''gegrLat'')) = None
       \<or> td (j_toString (j_index (j_toObject jv) ''gegrLon'')) = None))
   \<and> parseStations td (JArray (before @ jv # after))
       = parseStations td (JArray before)
           @ (case parseStation td jv of None \<Rightarrow> [] | Some st \<Rightarrow> [st])
           @ parseStations td (JArray after)
   \<and> (\<forall>st. parseStation td jv = Some st \<and> map_of (j_toObject jv) ''city'' = None \<longrightarrow>
         vget (v_toMap st) ''cityName'' = VString [] \<and> vget (v_toMap st) ''communeName'' = VString []
         \<and> vget (v_toMap st) ''districtName'' = VString [] \<and> vget (v_toMap st) ''provinceName'' = VString [])
   \<and> (\<forall>st. parseStation td jv = Some st
           \<and> map_of (j_toObject (j_index (j_toObject jv) ''city'')) ''commune'' = None \<longrightarrow>
         vget (v_toMap st) ''communeName'' = VString [] \<and> vget (v_toMap st) ''districtName'' = VString []
         \<and> vget (v_toMap st) ''provinceName'' = VString [])
   \<and> (\<forall>st \<in> set (parseStations td doc). \<exists>rec \<in> set (j_toArray doc). \<exists>lat lon.
         td (j_toString (j_index (j_toObject rec) ''gegrLat'')) = Some lat
         \<and> td (j_toString (j_index (j_toObject rec) ''gegrLon'')) = Some lon
         \<and> vget (v_toMap st) ''lat'' = VDouble lat \<and> vget (v_toMap st) ''lon'' = VDouble lon
         \<and> vget (v_toMap st) ''id'' = VInt (j_toInt (j_index (j_toObject rec) ''id'')))"
proof (intro conjI allI impI ballI)
  show "parseStation td jv = None \<longleftrightarrow>
      (j_index (j_toObject jv) ''id'' = JNull \<or> j_index (j_toObject jv) ''gegrLat'' = JNull
       \<or> j_index (j_toObject jv) ''gegrLon'' = JNull
       \<or> td (j_toString (j_index (j_toObject jv) ''gegrLat'')) = None
       \<or> td (j_toString (j_index (j_toObject jv) ''gegrLon'')) = None)"
    by (rule parseStation_None_iff)
next
  show "parseStations td (JArray (before @ jv # after))
       = parseStations td (JArray before)
           @ (case parseStation td jv of None \<Rightarrow> [] | Some st \<Rightarrow> [st])
           @ parseStations td (JArray after)"
    by (simp only: parseStations_append parseStations_Cons)
next
  fix st
  assume a: "parseStation td jv = Some st \<and> map_of (j_toObject jv) ''city'' = None"
  then obtain lat lon where st: "st = VMap
          [(''id'', VInt (j_toInt (j_index (j_toObject jv) ''id''))),
           (''name'', VString (j_toString (j_index (j_toObject jv) ''stationName''))),
           (''lat'', VDouble lat),
           (''lon'', VDouble lon),
           (''cityName'', VString (j_toString (j_index (j_toObject (j_index (j_toObject jv) ''city'')) ''name''))),
           (''communeName'', VString (j_toString (j_index (j_toObject
               (j_index (j_toObject (j_index (j_toObject jv) ''city'')) ''commune'')) ''communeName''))),
           (''districtName'', VString (j_toString (j_index (j_toObject
               (j_index (j_toObject (j_index (j_toObject jv) ''city'')) ''commune'')) ''districtName''))),
           (''provinceName'', VString (j_toString (j_index (j_toObject
               (j_index (j_toObject (j_index (j_toObject jv) ''city'')) ''commune'')) ''provinceName''))),
           (''addressStreet'', VString (j_toString (j_index (j_toObject jv) ''addressStreet''))),
           (''savedToHistory'', VBool False)]"
    using parseStation_Some by blast
  from a have c: "map_of (j_toObject jv) ''city'' = None" by simp
  show "vget (v_toMap st) ''cityName'' = VString []"
    by (simp add: st vget_def absent_city_gives_empty[OF c])
  show "vget (v_toMap st) ''communeName'' = VString []"
    by (simp add: st vget_def absent_city_gives_empty[OF c])
  show "vget (v_toMap st) ''districtName'' = VString []"
    by (simp add: st vget_def absent_city_gives_empty[OF c])
  show "vget (v_toMap st) ''provinceName'' = VString []"
    by (simp add: st vget_def absent_city_gives_empty[OF c])
next
  fix st
  assume a: "parseStation td jv = Some st
           \<and> map_of (j_toObject (j_index (j_toObject jv) ''city'')) ''commune'' = None"
  then obtain lat lon where st: "st = VMap
          [(''id'', VInt (j_toInt (j_index (j_toObject jv) ''id''))),
           (''name'', VString (j_toString (j_index (j_toObject jv) ''stationName''))),
           (''lat'', VDouble lat),
           (''lon'', VDouble lon),
           (''cityName'', VString (j_toString (j_index (j_toObject (j_index (j_toObject jv) ''city'')) ''name''))),
           (''communeName'', VString (j_toString (j_index (j_toObject
               (j_index (j_toObject (j_index (j_toObject jv) ''city'')) ''commune'')) ''communeName''))),
           (''districtName'', VString (j_toString (j_index (j_toObject
               (j_index (j_toObject (j_index (j_toObject jv) ''city'')) ''commune'')) ''districtName''))),
           (''provinceName'', VString (j_toString (j_index (j_toObject
               (j_index (j_toObject (j_index (j_toObject jv) ''city'')) ''commune'')) ''provinceName''))),
           (''addressStreet'', VString (j_toString (j_index (j_toObject jv) ''addressStreet''))),
           (''savedToHistory'', VBool False)]"
    using parseStation_Some by blast
  from a have c: "map_of (j_toObject (j_index (j_toObject jv) ''city'')) ''commune'' = None" by simp
  show "vget (v_toMap st) ''communeName'' = VString []"
    by (simp add: st vget_def absent_commune_gives_empty[OF c])
  show "vget (v_toMap st) ''districtName'' = VString []"
    by (simp add: st vget_def absent_commune_gives_empty[OF c])
  show "vget (v_toMap st) ''provinceName'' = VString []"
    by (simp add: st vget_def absent_commune_gives_empty[OF c])
next
  fix st assume "st \<in> set (parseStations td doc)"
  then obtain rec where r: "rec \<in> set (j_toArray doc)" "parseStation td rec = Some st"
    by (auto simp: parseStations_mem)
  from parseStation_Some[OF r(2)] obtain lat lon where
    "td (j_toString (j_index (j_toObject rec) ''gegrLat'')) = Some lat"
    "td (j_toString (j_index (j_toObject rec) ''gegrLon'')) = Some lon"
    "vget (v_toMap st) ''lat'' = VDouble lat" "vget (v_toMap st) ''lon'' = VDouble lon"
    "vget (v_toMap st) ''id'' = VInt (j_toInt (j_index (j_toObject rec) ''id''))"
    by (auto simp: vget_def)
  with r(1) show "\<exists>rec \<in> set (j_toArray doc). \<exists>lat lon.
         td (j_toString (j_index (j_toObject rec) ''gegrLat'')) = Some lat
         \<and> td (j_toString (j_index (j_toObject rec) ''gegrLon'')) = Some lon
         \<and> vget (v_toMap st) ''lat'' = VDouble lat \<and> vget (v_toMap st) ''lon'' = VDouble lon
         \<and> vget (v_toMap st) ''id'' = VInt (j_toInt (j_index (j_toObject rec) ''id''))"
    by blast
qed

text \<open>An instance of C7: of the three records of the example the one whose latitude is
  \<open>abc\<close> is dropped and the other two are stations; a record with no city at all is a
  station with an empty city name.\<close>

theorem station_parser_witness:
  "parseStation plainDecimal (exStation 3 ''Bez-szerokosci'' ''abc'' ''21.1'' ''Radom'') = None
   \<and> (\<exists>st. parseStation plainDecimal
              (JObject [(''id'', JDouble 5), (''gegrLat'', JString ''50''), (''gegrLon'', JString ''20'')])
            = Some st
          \<and> vget (v_toMap st) ''cityName'' = VString [])
   \<and> parseStations plainDecimal exStationsDoc \<noteq> []
   \<and> (\<exists>lat lon. vget (v_toMap (parseStations plainDecimal exStationsDoc ! 0)) ''lat'' = VDouble lat
          \<and> vget (v_toMap (parseStations plainDecimal exStationsDoc ! 0)) ''lon'' = VDouble lon)"
proof -
  have bad: "plainDecimal (j_toString (j_index (j_toObject
      (exStation 3 ''Bez-szerokosci'' ''abc'' ''21.1'' ''Radom'')) ''gegrLat'')) = None"
    by (simp add: json_defs example_defs)
  let ?nocity = "JObject [(''id'', JDouble 5), (''gegrLat'', JString ''50''), (''gegrLon'', JString ''20'')]"
  have nocity: "parseStation plainDecimal ?nocity \<noteq> None"
    "map_of (j_toObject ?nocity) ''city'' = None"
    by (simp_all add: parseStation_def json_defs example_defs qs_toDouble_def)
  have mem: "parseStations plainDecimal exStationsDoc ! 0 \<in> set (parseStations plainDecimal exStationsDoc)"
    by (simp add: ex_parsed)
  note thm1 = station_parser_drops_records_without_coordinates
    [of plainDecimal "exStation 3 ''Bez-szerokosci'' ''abc'' ''21.1'' ''Radom''" "[]" "[]" exStationsDoc]
  note thm2 = station_parser_drops_records_without_coordinates
    [of plainDecimal ?nocity "[]" "[]" exStationsDoc]
  from thm1 bad have 1: "parseStation plainDecimal (exStation 3 ''Bez-szerokosci'' ''abc'' ''21.1'' ''Radom'') = None"
    by blast
  from thm2 nocity have 2: "\<exists>st. parseStation plainDecimal ?nocity = Some st
          \<and> vget (v_toMap st) ''cityName'' = VString []"
    by blast
  have 3: "parseStations plainDecimal exStationsDoc \<noteq> []"
    by (simp add: ex_parsed)
  from thm1 mem have 4: "\<exists>lat lon. vget (v_toMap (parseStations plainDecimal exStationsDoc ! 0)) ''lat'' = VDouble lat
          \<and> vget (v_toMap (parseStations plainDecimal exStationsDoc ! 0)) ''lon'' = VDouble lon"
    by blast
  from 1 2 3 4 show ?thesis by blast
qed

section \<open>The details of a station: the replies merged\<close>

lemma foldl_sensorStep:
  "fst (foldl (sensorStep lib sid) (acc, s) js) = acc @ map (\<lambda>jv. VMap (sensorOf jv)) js
   \<and> pending (snd (foldl (sensorStep lib sid) (acc, s) js)) k
       = (if k = sid then pending s k + int (length js) else pending s k)
   \<and> requests (snd (foldl (sensorStep lib sid) (acc, s) js)) = requests s @ sensorRequests lib js
   \<and> m_stationDetails (snd (foldl (sensorStep lib sid) (acc, s) js)) = m_stationDetails s
   \<and> emitted (snd (foldl (sensorStep lib sid) (acc, s) js)) = emitted s"
proof (induction js arbitrary: acc s)
  case Nil
  then show ?case by (simp add: sensorRequests_def)
next
  case (Cons jv js)
  have step: "sensorStep lib sid (acc, s) jv =
      (acc @ [VMap (sensorOf jv)],
       manager_get (GetData (v_toInt lib (vget (sensorOf jv) ''id'')))
         (set_pending sid (pending s sid + 1) s))"
    by (simp add: sensorStep_def Let_def)
  show ?case
    by (simp add: step Cons.IH)
       (simp add: manager_get_def set_pending_def pending_def sensorRequests_def)
qed

lemma sensorRounds_last:
  "last (acc # sensorRounds lib sid acc js) = foldl (sensorStep lib sid) acc js"
  by (induction js arbitrary: acc) simp_all

lemma processSensorsReplySteps_Finished:
  assumes "foldl (sensorStep lib sid) ([], s) (j_toArray doc) = (sl, s1)"
    and "v_toInt lib (vget (m_stationDetails s) ''stationId'') = sid"
  shows "processSensorsReplySteps lib s (Finished doc)
      = map snd (sensorRounds lib sid ([], s) (j_toArray doc))
        @ [s1\<lparr>m_stationDetails := vset (m_stationDetails s1) ''sensors'' (VList sl)\<rparr>,
           set_pending sid (pending (s1\<lparr>m_stationDetails := vset (m_stationDetails s1) ''sensors'' (VList sl)\<rparr>) sid - 1)
             (s1\<lparr>m_stationDetails := vset (m_stationDetails s1) ''sensors'' (VList sl)\<rparr>)]"
  using assms
  by (simp add: processSensorsReplySteps_def sensorRounds_last Let_def del: last.simps)

lemma processSensorsReply_Finished:
  "m_stationDetails (processSensorsReply lib s (Finished doc))
     = vset (m_stationDetails s) ''sensors'' (VList (map (\<lambda>jv. VMap (sensorOf jv)) (j_toArray doc)))
   \<and> pending (processSensorsReply lib s (Finished doc)) k
     = (if k = v_toInt lib (vget (m_stationDetails s) ''stationId'')
        then pending s k + int (length (j_toArray doc)) - 1 else pending s k)
   \<and> requests (processSensorsReply lib s (Finished doc)) = requests s @ sensorRequests lib (j_toArray doc)
   \<and> emitted (processSensorsReply lib s (Finished doc)) = emitted s"
proof -
  define sid where "sid = v_toInt lib (vget (m_stationDetails s) ''stationId'')"
  obtain sl s1 where f: "foldl (sensorStep lib sid) ([], s) (j_toArray doc) = (sl, s1)"
    by fastforce
  from foldl_sensorStep[of lib sid "[]" s "j_toArray doc" k] f
  have sl: "sl = map (\<lambda>jv. VMap (sensorOf jv)) (j_toArray doc)"
    and p: "pending s1 k = (if k = sid then pending s k + int (length (j_toArray doc)) else pending s k)"
    and r: "requests s1 = requests s @ sensorRequests lib (j_toArray doc)"
    and d: "m_stationDetails s1 = m_stationDetails s"
    and e: "emitted s1 = emitted s"
    by simp_all
  have "processSensorsReply lib s (Finished doc) =
      set_pending sid (pending (s1\<lparr>m_stationDetails := vset (m_stationDetails s1) ''sensors'' (VList sl)\<rparr>) sid - 1)
        (s1\<lparr>m_stationDetails := vset (m_stationDetails s1) ''sensors'' (VList sl)\<rparr>)"
    by (simp add: processSensorsReply_def processSensorsReplySteps_Finished[OF f sid_def [symmetric]])
  then show ?thesis
    using sl p r d e foldl_sensorStep[of lib sid "[]" s "j_toArray doc" sid] f
    by (simp add: set_pending_def pending_def sid_def [symmetric])
qed

lemma processDataReply_Finished:
  "m_stationDetails (processDataReply lib s (Finished doc))
     = vset (m_stationDetails s) ''sensors''
         (VList (attachMeasurements lib (dataKey doc) (dataMeasurements doc)
                   (v_toList (vget (m_stationDetails s) ''sensors''))))
   \<and> pending (processDataReply lib s (Finished doc)) k
     = (if k = v_toInt lib (vget (m_stationDetails s) ''stationId'') then pending s k - 1 else pending s k)
   \<and> requests (processDataReply lib s (Finished doc)) = requests s
   \<and> emitted (processDataReply lib s (Finished doc)) = emitted s @ [stationDetailsChanged]"
  by (simp add: processDataReply_def Let_def emit_def set_pending_def pending_def dataKey_def
      dataMeasurements_def)

lemma processIndexReply_Finished:
  "m_stationDetails (processIndexReply lib s (Finished doc))
     = vset (m_stationDetails s) ''airQualityIndex'' (VMap (indexOf doc))
   \<and> pending (processIndexReply lib s (Finished doc)) k
     = (if k = v_toInt lib (vget (m_stationDetails s) ''stationId'') then pending s k - 1 else pending s k)
   \<and> requests (processIndexReply lib s (Finished doc)) = requests s
   \<and> emitted (processIndexReply lib s (Finished doc)) = emitted s @ [stationDetailsChanged]"
  by (simp add: processIndexReply_def Let_def emit_def set_pending_def pending_def vget_vset)

lemma process_NetworkFailure:
  "processSensorsReply lib s NetworkFailure = emit networkError s"
  "processDataReply lib s NetworkFailure = emit networkError s"
  "processIndexReply lib s NetworkFailure = emit networkError s"
  by (simp_all add: processSensorsReply_def processSensorsReplySteps_def processDataReply_def
      processIndexReply_def)

lemma emit_fields [simp]:
  "m_stationDetails (emit sg s) = m_stationDetails s"
  "pending (emit sg s) k = pending s k"
  "requests (emit sg s) = requests s"
  by (simp_all add: emit_def pending_def)

lemma deliver_detail:
  assumes "isDetail a" "vget (m_stationDetails s) ''stationId'' = VInt sid"
  shows "vget (m_stationDetails (deliver td lib s a)) ''stationId'' = VInt sid"
    and "pending (deliver td lib s a) sid = pending s sid + delta a"
proof -
  have "vget (m_stationDetails (deliver td lib s a)) ''stationId'' = VInt sid
      \<and> pending (deliver td lib s a) sid = pending s sid + delta a"
  proof (cases a)
    case (StationsArrived r)
    with assms(1) show ?thesis by (simp add: isDetail_def)
  next
    case (SensorsArrived r)
    then show ?thesis using assms(2)
      by (cases r) (simp_all add: deliver_def delta_def process_NetworkFailure
          processSensorsReply_Finished vget_vset)
  next
    case (DataArrived r)
    then show ?thesis using assms(2)
      by (cases r) (simp_all add: deliver_def delta_def process_NetworkFailure
          processDataReply_Finished vget_vset)
  next
    case (IndexArrived r)
    then show ?thesis using assms(2)
      by (cases r) (simp_all add: deliver_def delta_def process_NetworkFailure
          processIndexReply_Finished vget_vset)
  qed
  then show "vget (m_stationDetails (deliver td lib s a)) ''stationId'' = VInt sid"
    and "pending (deliver td lib s a) sid = pending s sid + delta a" by simp_all
qed

lemma run_detail:
  assumes "\<forall>a \<in> set as. isDetail a" "vget (m_stationDetails s) ''stationId'' = VInt sid"
  shows "vget (m_stationDetails (run td lib s as)) ''stationId'' = VInt sid
       \<and> pending (run td lib s as) sid = pending s sid + sum_list (map delta as)"
  using assms
proof (induction as arbitrary: s)
  case Nil
  then show ?case by (simp add: run_def)
next
  case (Cons a as)
  from Cons.prems have a: "isDetail a" and as: "\<forall>a \<in> set as. isDetail a" by auto
  note d = deliver_detail[OF a Cons.prems(2), of td lib]
  from Cons.IH[OF as d(1)] d(2) show ?case
    by (simp add: run_def)
qed

lemma fetchStationDetails_fields:
  "pending (fetchStationDetails sid s) sid = 2"
  "vget (m_stationDetails (fetchStationDetails sid s)) ''stationId'' = VInt sid"
  "m_stationDetails (fetchStationDetails sid s) = [(''stationId'', VInt sid)]"
  "requests (fetchStationDetails sid s) = requests s @ [GetSensors sid, GetIndex sid]"
  by (simp_all add: fetchStationDetails_def Let_def manager_get_def set_pending_def pending_def vget_def)

lemma sum_delta_filter:
  "sum_list (map delta as)
     = sum_list (map delta (filter P as)) + sum_list (map delta (filter (\<lambda>a. \<not> P a) as))"
  by (induction as) auto

lemma sum_delta_data:
  "sum_list (map delta (map (\<lambda>d. DataArrived (Finished d)) ds)) = - int (length ds)"
  by (induction ds) (auto simp: delta_def)

lemma detailArrival_isDetail:
  assumes "detailArrival sensorsDoc indexDoc dataDocs as"
  shows "\<forall>a \<in> set as. isDetail a"
proof
  fix a assume a: "a \<in> set as"
  show "isDetail a"
  proof (cases "isIndexArrival a")
    case True
    then show ?thesis by (auto simp: isIndexArrival_def isDetail_def split: arrival.splits)
  next
    case False
    with a have "a \<in> set (filter (\<lambda>a. \<not> isIndexArrival a) as)" by simp
    with assms have "a \<in> set (SensorsArrived (Finished sensorsDoc) # map (\<lambda>d. DataArrived (Finished d)) dataDocs)"
      by (simp add: detailArrival_def)
    then show ?thesis by (auto simp: isDetail_def)
  qed
qed

lemma prefix_pending:
  assumes da: "detailArrival sensorsDoc indexDoc dataDocs as"
    and n: "length dataDocs = length (j_toArray sensorsDoc)"
    and k: "k \<le> length as"
  shows "length as = length dataDocs + 2"
    and "k < length as \<Longrightarrow> 0 < pending (run td lib (fetchStationDetails sid s) (take k as)) sid"
    and "k = length as \<Longrightarrow> pending (run td lib (fetchStationDetails sid s) (take k as)) sid = 0"
proof -
  let ?S = "SensorsArrived (Finished sensorsDoc)"
  let ?D = "map (\<lambda>d. DataArrived (Finished d)) dataDocs"
  let ?I = "IndexArrived (Finished indexDoc)"
  let ?N = "\<lambda>a. \<not> isIndexArrival a"
  define P where "P = take k as"
  define Q where "Q = drop k as"
  have as: "as = P @ Q" by (simp add: P_def Q_def)
  from da have fi: "filter isIndexArrival as = [?I]" and fn: "filter ?N as = ?S # ?D"
    by (simp_all add: detailArrival_def)
  have "length as = length (filter isIndexArrival as) + length (filter ?N as)"
    by (simp add: sum_length_filter_compl)
  with fi fn show len: "length as = length dataDocs + 2" by simp
  have lenP: "length (filter isIndexArrival P) + length (filter ?N P) = k"
    using k by (simp add: sum_length_filter_compl P_def)
  from fi as have iP: "filter isIndexArrival P @ filter isIndexArrival Q = [?I]" by simp
  then have iPc: "filter isIndexArrival P = [] \<or> filter isIndexArrival P = [?I]"
    by (cases "filter isIndexArrival P") auto
  then have sumI: "sum_list (map delta (filter isIndexArrival P)) = - int (length (filter isIndexArrival P))"
    and lenI: "length (filter isIndexArrival P) \<le> 1"
    by (auto simp: delta_def)
  from fn as have "filter ?N P @ filter ?N Q = ?S # ?D" by simp
  then have nP: "filter ?N P = take (length (filter ?N P)) (?S # ?D)"
    by (simp add: append_eq_conv_conj)
  have lenN: "length (filter ?N P) \<le> length dataDocs + 1"
  proof -
    have "length (take (length (filter ?N P)) (?S # ?D)) \<le> length (?S # ?D)" by simp
    with nP show ?thesis by simp
  qed
  have sumN: "sum_list (map delta (filter ?N P))
      = (if length (filter ?N P) = 0 then 0 else int (length dataDocs) - int (length (filter ?N P)))"
  proof (cases "length (filter ?N P)")
    case 0
    then show ?thesis by simp
  next
    case (Suc j)
    with nP have eq: "filter ?N P = ?S # take j ?D" by simp
    from Suc lenN have j: "j \<le> length dataDocs" by simp
    have "take j ?D = map (\<lambda>d. DataArrived (Finished d)) (take j dataDocs)"
      by (simp add: take_map)
    then have "sum_list (map delta (take j ?D)) = - int (length (take j dataDocs))"
      by (simp only: sum_delta_data)
    with j have "sum_list (map delta (take j ?D)) = - int j" by simp
    then have "sum_list (map delta (filter ?N P)) = int (length (j_toArray sensorsDoc)) - 1 - int j"
      by (simp add: eq delta_def)
    with Suc n show ?thesis by simp
  qed
  have det: "\<forall>a \<in> set P. isDetail a"
    using detailArrival_isDetail[OF da] as by auto
  from run_detail[OF det fetchStationDetails_fields(2)]
  have "pending (run td lib (fetchStationDetails sid s) P) sid = 2 + sum_list (map delta P)"
    by (simp add: fetchStationDetails_fields)
  also have "sum_list (map delta P)
      = sum_list (map delta (filter isIndexArrival P)) + sum_list (map delta (filter ?N P))"
    by (rule sum_delta_filter)
  finally have pend: "pending (run td lib (fetchStationDetails sid s) P) sid
      = 2 - int (length (filter isIndexArrival P))
        + (if length (filter ?N P) = 0 then 0 else int (length dataDocs) - int (length (filter ?N P)))"
    by (simp add: sumI sumN)
  show "0 < pending (run td lib (fetchStationDetails sid s) (take k as)) sid" if "k < length as"
    using that pend lenI lenN lenP len by (auto simp: P_def split: if_splits)
  show "pending (run td lib (fetchStationDetails sid s) (take k as)) sid = 0" if "k = length as"
    using that pend lenI lenN lenP len by (auto simp: P_def split: if_splits)
qed

lemma deliver_detail_record:
  assumes "isDetail a"
  shows "requests (deliver td lib s a) = requests s @ arrivalRequests lib a
    \<and> vget (m_stationDetails (deliver td lib s a)) ''sensors''
        = sensorsAfter lib (vget (m_stationDetails s) ''sensors'') a
    \<and> vget (m_stationDetails (deliver td lib s a)) ''airQualityIndex''
        = indexAfter (vget (m_stationDetails s) ''airQualityIndex'') a"
proof (cases a)
  case (StationsArrived r)
  with assms show ?thesis by (simp add: isDetail_def)
next
  case (SensorsArrived r)
  then show ?thesis
    by (cases r) (simp_all add: deliver_def arrivalRequests_def sensorsAfter_def indexAfter_def
        process_NetworkFailure processSensorsReply_Finished vget_vset)
next
  case (DataArrived r)
  then show ?thesis
    by (cases r) (simp_all add: deliver_def arrivalRequests_def sensorsAfter_def indexAfter_def
        process_NetworkFailure processDataReply_Finished vget_vset)
next
  case (IndexArrived r)
  then show ?thesis
    by (cases r) (simp_all add: deliver_def arrivalRequests_def sensorsAfter_def indexAfter_def
        process_NetworkFailure processIndexReply_Finished vget_vset)
qed

lemma run_detail_record:
  assumes "\<forall>a \<in> set as. isDetail a"
  shows "requests (run td lib s as) = requests s @ concat (map (arrivalRequests lib) as)
    \<and> vget (m_stationDetails (run td lib s as)) ''sensors''
        = foldl (sensorsAfter lib) (vget (m_stationDetails s) ''sensors'') as
    \<and> vget (m_stationDetails (run td lib s as)) ''airQualityIndex''
        = foldl indexAfter (vget (m_stationDetails s) ''airQualityIndex'') as"
  using assms
proof (induction as arbitrary: s)
  case Nil
  then show ?case by (simp add: run_def)
next
  case (Cons a as)
  from Cons.prems have a: "isDetail a" and as: "\<forall>a \<in> set as. isDetail a" by auto
  from Cons.IH[OF as, of "deliver td lib s a"] deliver_detail_record[OF a, of td lib s]
  show ?case by (simp add: run_def)
qed

lemma foldl_filter_neutral:
  assumes "\<And>v a. \<not> P a \<Longrightarrow> f v a = v"
  shows "foldl f v as = foldl f v (filter P as)"
  using assms by (induction as arbitrary: v) auto

lemma concat_filter_neutral:
  assumes "\<And>a. \<not> P a \<Longrightarrow> f a = []"
  shows "concat (map f as) = concat (map f (filter P as))"
  using assms by (induction as) auto

lemma formulaOf_withMeasurements [simp]: "formulaOf lib (withMeasurements ms x) = formulaOf lib x"
  by (simp add: formulaOf_def withMeasurements_def vget_vset)

lemma attach_first:
  "i < length S \<Longrightarrow> formulaOf lib (S ! i) = key \<Longrightarrow> (\<forall>j < i. formulaOf lib (S ! j) \<noteq> key) \<Longrightarrow>
   attachMeasurements lib key ms S = S[i := withMeasurements ms (S ! i)]"
proof (induction S arbitrary: i)
  case Nil
  then show ?case by simp
next
  case (Cons x S)
  show ?case
  proof (cases i)
    case 0
    with Cons.prems show ?thesis by (simp add: formulaOf_def withMeasurements_def)
  next
    case (Suc i')
    with Cons.prems have x: "formulaOf lib x \<noteq> key" by auto
    from Cons.prems Suc have "attachMeasurements lib key ms S = S[i' := withMeasurements ms (S ! i')]"
      by (intro Cons.IH) auto
    with x Suc show ?thesis by (simp add: formulaOf_def)
  qed
qed

lemma attach_none:
  "key \<notin> (formulaOf lib) ` set S \<Longrightarrow> attachMeasurements lib key ms S = S"
  by (induction S) (auto simp: formulaOf_def)

lemma attach_distinct:
  assumes "distinct (map (formulaOf lib) S)" "i < length S" "formulaOf lib (S ! i) = key"
  shows "attachMeasurements lib key ms S = S[i := withMeasurements ms (S ! i)]"
proof (rule attach_first[OF assms(2,3)], intro allI impI)
  fix j assume j: "j < i"
  with assms(2) have "j < length (map (formulaOf lib) S)" "i < length (map (formulaOf lib) S)" "j \<noteq> i"
    by simp_all
  with assms(1) have "map (formulaOf lib) S ! j \<noteq> map (formulaOf lib) S ! i"
    unfolding distinct_conv_nth by blast
  with assms(2,3) j show "formulaOf lib (S ! j) \<noteq> key" by simp
qed

lemma attach_formulas: "map (formulaOf lib) (attachMeasurements lib key ms S) = map (formulaOf lib) S"
proof (induction S)
  case Nil
  then show ?case by simp
next
  case (Cons x S)
  have "formulaOf lib (VMap (vset (v_toMap x) ''measurements'' (VList ms))) = formulaOf lib x"
    using formulaOf_withMeasurements[of lib ms x] by (simp add: withMeasurements_def)
  with Cons show ?case by (simp add: Let_def)
qed

lemma attachAll_snoc: "attachAll lib S (docs @ [d]) = attachMeasurements lib (dataKey d) (dataMeasurements d) (attachAll lib S docs)"
  by (simp add: attachAll_def)

lemma attachAll_invariant:
  assumes "distinct (map (formulaOf lib) S)" "distinct (map dataKey docs)"
  shows "map (formulaOf lib) (attachAll lib S docs) = map (formulaOf lib) S
    \<and> (\<forall>i < length S.
          ((\<forall>d \<in> set docs. dataKey d \<noteq> formulaOf lib (S ! i)) \<longrightarrow> attachAll lib S docs ! i = S ! i)
        \<and> (\<forall>d \<in> set docs. dataKey d = formulaOf lib (S ! i)
              \<longrightarrow> attachAll lib S docs ! i = withMeasurements (dataMeasurements d) (S ! i)))"
  using assms(2)
proof (induction docs rule: rev_induct)
  case Nil
  then show ?case by (simp add: attachAll_def)
next
  case (snoc d docs)
  let ?T = "attachAll lib S docs"
  from snoc.prems have dk: "distinct (map dataKey docs)" and fresh: "dataKey d \<notin> dataKey ` set docs"
    by auto
  note IH = snoc.IH[OF dk]
  from IH have IHa: "attachAll lib S docs ! i = S ! i"
    if "i < length S" "\<forall>d \<in> set docs. dataKey d \<noteq> formulaOf lib (S ! i)" for i
    using that by blast
  from IH have IHb: "attachAll lib S docs ! i = withMeasurements (dataMeasurements d') (S ! i)"
    if "i < length S" "d' \<in> set docs" "dataKey d' = formulaOf lib (S ! i)" for i d'
    using that by blast
  from IH have fT: "map (formulaOf lib) ?T = map (formulaOf lib) S" by simp
  then have lenT: "length ?T = length S" by (metis length_map)
  have dT: "distinct (map (formulaOf lib) ?T)" using fT assms(1) by simp
  have fTi: "formulaOf lib (?T ! i) = formulaOf lib (S ! i)" if "i < length S" for i
    using fT that lenT by (metis nth_map)
  show ?case
  proof (cases "dataKey d \<in> (formulaOf lib) ` set S")
    case False
    then have "dataKey d \<notin> (formulaOf lib) ` set ?T"
      using fT by (metis list.set_map)
    then have eq: "attachAll lib S (docs @ [d]) = ?T"
      by (simp add: attachAll_snoc attach_none)
    from False have "\<forall>i < length S. dataKey d \<noteq> formulaOf lib (S ! i)" by auto
    with IHa IHb fT eq show ?thesis by auto
  next
    case True
    then obtain i0 where i0: "i0 < length S" "formulaOf lib (S ! i0) = dataKey d"
      by (auto simp: in_set_conv_nth)
    have eq: "attachAll lib S (docs @ [d]) = ?T[i0 := withMeasurements (dataMeasurements d) (?T ! i0)]"
      unfolding attachAll_snoc
      by (rule attach_distinct[OF dT]) (use i0 lenT fTi in auto)
    have "\<forall>d' \<in> set docs. dataKey d' \<noteq> formulaOf lib (S ! i0)"
      using fresh i0(2) by (metis imageI)
    then have Ti0: "?T ! i0 = S ! i0"
      using IHa i0(1) by blast
    have uniq: "i = i0" if "i < length S" "formulaOf lib (S ! i) = dataKey d" for i
      using that i0 assms(1) by (metis distinct_conv_nth length_map nth_map)
    show ?thesis
    proof (intro conjI allI impI ballI)
      show "map (formulaOf lib) (attachAll lib S (docs @ [d])) = map (formulaOf lib) S"
        using attach_formulas fT by (simp add: attachAll_snoc)
    next
      fix i assume i: "i < length S" and no: "\<forall>d \<in> set (docs @ [d]). dataKey d \<noteq> formulaOf lib (S ! i)"
      then have "i \<noteq> i0" using i0 by auto
      moreover from no have "\<forall>d \<in> set docs. dataKey d \<noteq> formulaOf lib (S ! i)" by simp
      ultimately show "attachAll lib S (docs @ [d]) ! i = S ! i"
        using eq IHa[OF i] by simp
    next
      fix i d' assume i: "i < length S" and d': "d' \<in> set (docs @ [d])"
        and k: "dataKey d' = formulaOf lib (S ! i)"
      show "attachAll lib S (docs @ [d]) ! i = withMeasurements (dataMeasurements d') (S ! i)"
      proof (cases "i = i0")
        case True
        with k i0 have "dataKey d' = dataKey d" by simp
        moreover from d' have "d' \<in> set docs \<or> d' = d" by auto
        ultimately have "d' = d" using fresh by (metis imageI)
        with eq True Ti0 lenT i0 show ?thesis by simp
      next
        case False
        with uniq i k have "dataKey d' \<noteq> dataKey d" by metis
        with d' have "d' \<in> set docs" by auto
        with IHb i k have "?T ! i = withMeasurements (dataMeasurements d') (S ! i)" by blast
        with eq False show ?thesis by simp
      qed
    qed
  qed
qed

lemma foldl_sensorsAfter_data:
  "foldl (sensorsAfter lib) (VList S) (map (\<lambda>d. DataArrived (Finished d)) docs) = VList (attachAll lib S docs)"
proof (induction docs arbitrary: S)
  case Nil
  then show ?case by (simp add: attachAll_def)
next
  case (Cons d docs)
  have "sensorsAfter lib (VList S) (DataArrived (Finished d))
      = VList (attachMeasurements lib (dataKey d) (dataMeasurements d) S)"
    by (simp add: sensorsAfter_def)
  with Cons.IH show ?case by (simp add: attachAll_def)
qed

lemma detail_record_after_arrival:
  assumes da: "detailArrival sensorsDoc indexDoc dataDocs as"
  shows "requests (run td lib (fetchStationDetails sid s) as)
      = requests s @ [GetSensors sid, GetIndex sid] @ sensorRequests lib (j_toArray sensorsDoc)"
    and "vget (m_stationDetails (run td lib (fetchStationDetails sid s) as)) ''sensors''
      = VList (attachAll lib (map (\<lambda>jv. VMap (sensorOf jv)) (j_toArray sensorsDoc)) dataDocs)"
    and "vget (m_stationDetails (run td lib (fetchStationDetails sid s) as)) ''airQualityIndex''
      = VMap (indexOf indexDoc)"
proof -
  let ?N = "\<lambda>a. \<not> isIndexArrival a"
  let ?s0 = "fetchStationDetails sid s"
  from da have fi: "filter isIndexArrival as = [IndexArrived (Finished indexDoc)]"
    and fn: "filter ?N as = SensorsArrived (Finished sensorsDoc) # map (\<lambda>d. DataArrived (Finished d)) dataDocs"
    by (simp_all add: detailArrival_def)
  note rec = run_detail_record[OF detailArrival_isDetail[OF da], of td lib ?s0]
  have "concat (map (arrivalRequests lib) as) = concat (map (arrivalRequests lib) (filter ?N as))"
    by (rule concat_filter_neutral) (auto simp: arrivalRequests_def isIndexArrival_def split: arrival.splits)
  also have "\<dots> = sensorRequests lib (j_toArray sensorsDoc)"
    by (simp add: fn arrivalRequests_def comp_def)
  finally show "requests (run td lib ?s0 as)
      = requests s @ [GetSensors sid, GetIndex sid] @ sensorRequests lib (j_toArray sensorsDoc)"
    using rec by (simp add: fetchStationDetails_fields)
  have "foldl (sensorsAfter lib) (vget (m_stationDetails ?s0) ''sensors'') as
      = foldl (sensorsAfter lib) (vget (m_stationDetails ?s0) ''sensors'') (filter ?N as)"
    by (rule foldl_filter_neutral) (auto simp: sensorsAfter_def isIndexArrival_def split: arrival.splits)
  also have "\<dots> = VList (attachAll lib (map (\<lambda>jv. VMap (sensorOf jv)) (j_toArray sensorsDoc)) dataDocs)"
    by (simp add: fn sensorsAfter_def [of _ _ "SensorsArrived _"] foldl_sensorsAfter_data)
  finally show "vget (m_stationDetails (run td lib ?s0 as)) ''sensors''
      = VList (attachAll lib (map (\<lambda>jv. VMap (sensorOf jv)) (j_toArray sensorsDoc)) dataDocs)"
    using rec by simp
  have "foldl indexAfter (vget (m_stationDetails ?s0) ''airQualityIndex'') as
      = foldl indexAfter (vget (m_stationDetails ?s0) ''airQualityIndex'') (filter isIndexArrival as)"
    by (rule foldl_filter_neutral) (auto simp: indexAfter_def isIndexArrival_def split: arrival.splits)
  also have "\<dots> = VMap (indexOf indexDoc)"
    by (simp add: fi indexAfter_def)
  finally show "vget (m_stationDetails (run td lib ?s0 as)) ''airQualityIndex'' = VMap (indexOf indexDoc)"
    using rec by simp
qed

lemma sensorRounds_pending:
  "map (\<lambda>p. pending (snd p) sid) (sensorRounds lib sid (acc, s) js)
     = map (\<lambda>j. pending s sid + int (Suc j)) [0 ..< length js]"
proof (induction js arbitrary: acc s)
  case Nil
  then show ?case by simp
next
  case (Cons jv js)
  obtain acc' s' where st: "sensorStep lib sid (acc, s) jv = (acc', s')"
    by fastforce
  from foldl_sensorStep[of lib sid acc s "[jv]" sid] st
  have p: "pending s' sid = pending s sid + 1" by simp
  have eq: "[0 ..< length (jv # js)] = 0 # map Suc [0 ..< length js]"
    by (simp add: upt_conv_Cons map_Suc_upt del: upt_Suc)
  have "map (\<lambda>p. pending (snd p) sid) (sensorRounds lib sid (acc, s) (jv # js))
      = pending s' sid # map (\<lambda>p. pending (snd p) sid) (sensorRounds lib sid (acc', s') js)"
    by (simp add: st)
  also have "\<dots> = (pending s sid + 1) # map (\<lambda>j. pending s' sid + int (Suc j)) [0 ..< length js]"
    by (simp only: Cons.IH p)
  also have "\<dots> = map (\<lambda>j. pending s sid + int (Suc j)) (0 # map Suc [0 ..< length js])"
    by (simp add: p comp_def)
  finally show ?case unfolding eq .
qed

lemma pending_updates:
  "pending (s\<lparr>m_stationDetails := d\<rparr>) k = pending s k"
  "pending (set_pending k' c s) k = (if k = k' then c else pending s k)"
  by (simp_all add: pending_def set_pending_def)

lemma sensors_steps_pending:
  assumes "v_toInt lib (vget (m_stationDetails s) ''stationId'') = sid"
  shows "map (\<lambda>t. pending t sid) (processSensorsReplySteps lib s (Finished doc))
     = map (\<lambda>j. pending s sid + int (Suc j)) [0 ..< length (j_toArray doc)]
       @ [pending s sid + int (length (j_toArray doc)),
          pending s sid + int (length (j_toArray doc)) - 1]"
proof -
  obtain sl s1 where f: "foldl (sensorStep lib sid) ([], s) (j_toArray doc) = (sl, s1)"
    by fastforce
  from foldl_sensorStep[of lib sid "[]" s "j_toArray doc" sid] f
  have p: "pending s1 sid = pending s sid + int (length (j_toArray doc))" by simp
  show ?thesis
    unfolding processSensorsReplySteps_Finished[OF f assms]
    by (simp add: sensorRounds_pending comp_def pending_updates p)
qed

text \<open>
  C6.  The counter of the station is 2 when a fetch of details has started.  While the
  successful replies of the fetch arrive, in any order in which they can, the counter is
  positive after every one of them but the last and 0 after the last, that is, after
  all the replies (the number of sensors plus two).  The step that processes the list of
  \<open>n\<close> sensors takes the object through \<open>n + 2\<close> states, the last of which is the state it
  leaves.  Where the counter was \<open>c\<close> before the step, it is \<open>c + 1\<close>, ..., \<open>c + n\<close> after
  the rounds of the loop, \<open>c + n\<close> when the sensors have been stored, and \<open>c + n - 1\<close> at
  the end: every increment comes before the one decrement, and the counter is positive
  in every state of the step before the last.  A failed reply leaves the counter as it
  is.
\<close>

theorem pending_counter_zero_exactly_at_end:
  assumes da: "detailArrival sensorsDoc indexDoc dataDocs arrivals"
    and n: "length dataDocs = length (j_toArray sensorsDoc)"
  shows "pending (fetchStationDetails stationId s) stationId = 2
       \<and> length arrivals = length (j_toArray sensorsDoc) + 2
       \<and> (\<forall>k < length arrivals.
             0 < pending (run td lib (fetchStationDetails stationId s) (take k arrivals)) stationId)
       \<and> pending (run td lib (fetchStationDetails stationId s) arrivals) stationId = 0
       \<and> (\<forall>k. k < length arrivals \<and> arrivals ! k = SensorsArrived (Finished sensorsDoc) \<longrightarrow>
             run td lib (fetchStationDetails stationId s) (take (Suc k) arrivals)
               = last (processSensorsReplySteps lib
                         (run td lib (fetchStationDetails stationId s) (take k arrivals))
                         (Finished sensorsDoc))
           \<and> map (\<lambda>t. pending t stationId)
                 (processSensorsReplySteps lib
                    (run td lib (fetchStationDetails stationId s) (take k arrivals))
                    (Finished sensorsDoc))
               = map (\<lambda>j. pending (run td lib (fetchStationDetails stationId s) (take k arrivals)) stationId
                             + int (Suc j))
                   [0 ..< length (j_toArray sensorsDoc)]
                 @ [pending (run td lib (fetchStationDetails stationId s) (take k arrivals)) stationId
                      + int (length (j_toArray sensorsDoc)),
                    pending (run td lib (fetchStationDetails stationId s) (take k arrivals)) stationId
                      + int (length (j_toArray sensorsDoc)) - 1]
           \<and> (\<forall>t \<in> set (butlast (processSensorsReplySteps lib
                                      (run td lib (fetchStationDetails stationId s) (take k arrivals))
                                      (Finished sensorsDoc))).
                 0 < pending t stationId))
       \<and> pending (processSensorsReply lib s' NetworkFailure) i = pending s' i
       \<and> pending (processDataReply lib s' NetworkFailure) i = pending s' i
       \<and> pending (processIndexReply lib s' NetworkFailure) i = pending s' i"
proof -
  let ?s0 = "fetchStationDetails stationId s"
  have pos: "0 < pending (run td lib ?s0 (take k arrivals)) stationId" if "k < length arrivals" for k
    using prefix_pending(2)[OF da n _ that] that by simp
  have zero: "pending (run td lib ?s0 arrivals) stationId = 0"
    using prefix_pending(3)[OF da n le_refl refl, of td lib stationId s] by simp
  have len: "length arrivals = length (j_toArray sensorsDoc) + 2"
    using prefix_pending(1)[OF da n le_refl] n by simp
  have mid: "run td lib ?s0 (take (Suc k) arrivals)
               = last (processSensorsReplySteps lib (run td lib ?s0 (take k arrivals)) (Finished sensorsDoc))
           \<and> map (\<lambda>t. pending t stationId)
                 (processSensorsReplySteps lib (run td lib ?s0 (take k arrivals)) (Finished sensorsDoc))
               = map (\<lambda>j. pending (run td lib ?s0 (take k arrivals)) stationId + int (Suc j))
                   [0 ..< length (j_toArray sensorsDoc)]
                 @ [pending (run td lib ?s0 (take k arrivals)) stationId + int (length (j_toArray sensorsDoc)),
                    pending (run td lib ?s0 (take k arrivals)) stationId + int (length (j_toArray sensorsDoc)) - 1]
           \<and> (\<forall>t \<in> set (butlast (processSensorsReplySteps lib (run td lib ?s0 (take k arrivals))
                                      (Finished sensorsDoc))).
                 0 < pending t stationId)"
    if k: "k < length arrivals" and ak: "arrivals ! k = SensorsArrived (Finished sensorsDoc)" for k
  proof -
    let ?b = "run td lib ?s0 (take k arrivals)"
    let ?steps = "processSensorsReplySteps lib ?b (Finished sensorsDoc)"
    let ?c = "pending ?b stationId"
    let ?n = "length (j_toArray sensorsDoc)"
    have det: "\<forall>a \<in> set (take k arrivals). isDetail a"
      using detailArrival_isDetail[OF da] by (meson in_set_takeD)
    from run_detail[OF det fetchStationDetails_fields(2)]
    have "vget (m_stationDetails ?b) ''stationId'' = VInt stationId"
      by simp
    then have sid: "v_toInt lib (vget (m_stationDetails ?b) ''stationId'') = stationId"
      by simp
    have a: "run td lib ?s0 (take (Suc k) arrivals) = last ?steps"
      using k ak by (simp add: take_Suc_conv_app_nth run_def deliver_def processSensorsReply_def)
    have b: "map (\<lambda>t. pending t stationId) ?steps
        = map (\<lambda>j. ?c + int (Suc j)) [0 ..< ?n] @ [?c + int ?n, ?c + int ?n - 1]"
      by (rule sensors_steps_pending[OF sid])
    have "map (\<lambda>t. pending t stationId) (butlast ?steps)
        = butlast (map (\<lambda>t. pending t stationId) ?steps)"
      by (simp add: map_butlast)
    also have "\<dots> = map (\<lambda>j. ?c + int (Suc j)) [0 ..< ?n] @ [?c + int ?n]"
      unfolding b by (simp add: butlast_append)
    finally have bl: "map (\<lambda>t. pending t stationId) (butlast ?steps)
        = map (\<lambda>j. ?c + int (Suc j)) [0 ..< ?n] @ [?c + int ?n]" .
    have c: "\<forall>t \<in> set (butlast ?steps). 0 < pending t stationId"
    proof
      fix t assume "t \<in> set (butlast ?steps)"
      then have "pending t stationId \<in> set (map (\<lambda>t. pending t stationId) (butlast ?steps))"
        by simp
      then have "pending t stationId \<in> set (map (\<lambda>j. ?c + int (Suc j)) [0 ..< ?n] @ [?c + int ?n])"
        unfolding bl .
      with pos[OF k] show "0 < pending t stationId" by auto
    qed
    from a b c show ?thesis by blast
  qed
  have two: "pending ?s0 stationId = 2"
    by (rule fetchStationDetails_fields)
  have failed: "pending (processSensorsReply lib s' NetworkFailure) i = pending s' i"
    "pending (processDataReply lib s' NetworkFailure) i = pending s' i"
    "pending (processIndexReply lib s' NetworkFailure) i = pending s' i"
    by (simp_all add: process_NetworkFailure)
  show ?thesis
    using two pos zero len mid failed by blast
qed

text \<open>An instance of C6: the index, the two sensors and their two replies with
  measurements; the counter is 2 at the start, positive after three of the four replies
  and 0 after the fourth.  The list of sensors is the second reply, when the counter is
  1: during the step it is 2, 3, 3 and at the end 2.\<close>

theorem pending_counter_witness:
  "detailArrival exSensorsDoc exIndexDoc [exData ''NO2'' 12, exData ''PM10'' 30] exArrivals
   \<and> length [exData ''NO2'' 12, exData ''PM10'' 30] = length (j_toArray exSensorsDoc)
   \<and> length exArrivals = 4
   \<and> exArrivals ! 1 = SensorsArrived (Finished exSensorsDoc)
   \<and> pending (fetchStationDetails 1 exLoaded) 1 = 2
   \<and> pending (run plainDecimal exLib (fetchStationDetails 1 exLoaded) (take 1 exArrivals)) 1 = 1
   \<and> 0 < pending (run plainDecimal exLib (fetchStationDetails 1 exLoaded) (take 3 exArrivals)) 1
   \<and> pending (run plainDecimal exLib (fetchStationDetails 1 exLoaded) exArrivals) 1 = 0
   \<and> map (\<lambda>t. pending t 1)
        (processSensorsReplySteps exLib
           (run plainDecimal exLib (fetchStationDetails 1 exLoaded) (take 1 exArrivals))
           (Finished exSensorsDoc))
       = [2, 3, 3, 2]"
proof -
  have n: "length [exData ''NO2'' 12, exData ''PM10'' 30] = length (j_toArray exSensorsDoc)"
    by (simp add: ex_sensors)
  have l: "length exArrivals = 4" "exArrivals ! 1 = SensorsArrived (Finished exSensorsDoc)"
    by (simp_all add: exArrivals_def)
  note inst = pending_counter_zero_exactly_at_end [OF ex_arrival n, of 1 exLoaded plainDecimal exLib]
  from inst have a: "pending (fetchStationDetails 1 exLoaded) 1 = 2"
    and c: "pending (run plainDecimal exLib (fetchStationDetails 1 exLoaded) exArrivals) 1 = 0"
    by blast+
  from inst l have b: "0 < pending (run plainDecimal exLib (fetchStationDetails 1 exLoaded) (take 3 exArrivals)) 1"
    by simp
  have t1: "take 1 exArrivals = [IndexArrived (Finished exIndexDoc)]"
    by (simp add: exArrivals_def)
  have "isDetail (IndexArrived (Finished exIndexDoc))" by (simp add: isDetail_def)
  from deliver_detail(2)[OF this fetchStationDetails_fields(2), of plainDecimal exLib 1 exLoaded]
  have one: "pending (run plainDecimal exLib (fetchStationDetails 1 exLoaded) (take 1 exArrivals)) 1 = 1"
    unfolding t1 by (simp add: run_def fetchStationDetails_fields delta_def)
  have "(1::nat) < length exArrivals \<and> exArrivals ! 1 = SensorsArrived (Finished exSensorsDoc)"
    using l by simp
  with inst have "map (\<lambda>t. pending t 1)
        (processSensorsReplySteps exLib
           (run plainDecimal exLib (fetchStationDetails 1 exLoaded) (take 1 exArrivals))
           (Finished exSensorsDoc))
       = map (\<lambda>j. pending (run plainDecimal exLib (fetchStationDetails 1 exLoaded) (take 1 exArrivals)) 1
                     + int (Suc j))
           [0 ..< length (j_toArray exSensorsDoc)]
         @ [pending (run plainDecimal exLib (fetchStationDetails 1 exLoaded) (take 1 exArrivals)) 1
              + int (length (j_toArray exSensorsDoc)),
            pending (run plainDecimal exLib (fetchStationDetails 1 exLoaded) (take 1 exArrivals)) 1
              + int (length (j_toArray exSensorsDoc)) - 1]"
    by blast
  then have d: "map (\<lambda>t. pending t 1)
        (processSensorsReplySteps exLib
           (run plainDecimal exLib (fetchStationDetails 1 exLoaded) (take 1 exArrivals))
           (Finished exSensorsDoc))
       = [2, 3, 3, 2]"
    unfolding one by (simp add: ex_sensors upt_conv_Cons)
  from ex_arrival n l a one b c d show ?thesis by blast
qed

text \<open>
  C1, with the amendment that the sensors have different formulas and every one of them
  is the key of one reply with measurements.  A fetch of details for a station with \<open>n\<close>
  sensors issues the request for the sensors, the request for the index and, when the
  list of sensors is processed, one request for measurements per sensor: \<open>n + 2\<close> requests.
  After the successful replies, in any order in which they can arrive, the index is set;
  and when the sensors have different formulas and the keys of the replies with
  measurements are these formulas, one reply for each, every sensor of the detail record
  has the measurements of the reply whose key is its formula (the entries whose value is
  not null, in the order of the reply).  Whatever the sensors are, a reply with measurements changes the first sensor
  whose formula is its key, and no sensor when there is none.
\<close>

theorem detail_fetch_merges_all_replies:
  assumes da: "detailArrival sensorsDoc indexDoc dataDocs arrivals"
  shows "requests (run td lib (fetchStationDetails stationId s) arrivals)
           = requests s @ [GetSensors stationId, GetIndex stationId] @ sensorRequests lib (j_toArray sensorsDoc)
       \<and> length (sensorRequests lib (j_toArray sensorsDoc)) = length (j_toArray sensorsDoc)
       \<and> length arrivals = length dataDocs + 2
       \<and> vget (m_stationDetails (run td lib (fetchStationDetails stationId s) arrivals)) ''airQualityIndex''
           = VMap (indexOf indexDoc)
       \<and> (mset (map dataKey dataDocs) = mset (map (sensorFormula lib) (j_toArray sensorsDoc))
            \<and> distinct (map (sensorFormula lib) (j_toArray sensorsDoc)) \<longrightarrow>
              length dataDocs = length (j_toArray sensorsDoc)
            \<and> length (v_toList (vget (m_stationDetails
                  (run td lib (fetchStationDetails stationId s) arrivals)) ''sensors''))
                = length (j_toArray sensorsDoc)
            \<and> (\<forall>i < length (j_toArray sensorsDoc). \<exists>d \<in> set dataDocs.
                  dataKey d = sensorFormula lib (j_toArray sensorsDoc ! i)
                \<and> v_toList (vget (m_stationDetails
                      (run td lib (fetchStationDetails stationId s) arrivals)) ''sensors'') ! i
                    = VMap (vset (sensorOf (j_toArray sensorsDoc ! i)) ''measurements''
                              (VList (measurementsOf (j_toArray (j_index (j_toObject d) ''values'')))))))
       \<and> measurementsOf vals
           = map measurementOf (filter (\<lambda>jv. j_index (j_toObject jv) ''value'' \<noteq> JNull) vals)
       \<and> (\<forall>i. i < length S \<and> formulaOf lib (S ! i) = key \<and> (\<forall>j < i. formulaOf lib (S ! j) \<noteq> key) \<longrightarrow>
             attachMeasurements lib key ms S
               = S[i := VMap (vset (v_toMap (S ! i)) ''measurements'' (VList ms))])
       \<and> (key \<notin> (formulaOf lib) ` set S \<longrightarrow> attachMeasurements lib key ms S = S)"
proof -
  let ?sens = "j_toArray sensorsDoc"
  let ?S = "map (\<lambda>jv. VMap (sensorOf jv)) ?sens"
  let ?final = "run td lib (fetchStationDetails stationId s) arrivals"
  note rec = detail_record_after_arrival[OF da, of td lib stationId s]
  have lenarr: "length arrivals = length dataDocs + 2"
  proof -
    have "length arrivals = length (filter isIndexArrival arrivals)
        + length (filter (\<lambda>a. \<not> isIndexArrival a) arrivals)"
      by (simp add: sum_length_filter_compl)
    with da show ?thesis by (simp add: detailArrival_def)
  qed
  have populated: "length dataDocs = length ?sens
      \<and> length (v_toList (vget (m_stationDetails ?final) ''sensors'')) = length ?sens
      \<and> (\<forall>i < length ?sens. \<exists>d \<in> set dataDocs.
             dataKey d = sensorFormula lib (?sens ! i)
           \<and> v_toList (vget (m_stationDetails ?final) ''sensors'') ! i
               = VMap (vset (sensorOf (?sens ! i)) ''measurements''
                         (VList (measurementsOf (j_toArray (j_index (j_toObject d) ''values''))))))"
    if keys: "mset (map dataKey dataDocs) = mset (map (sensorFormula lib) ?sens)"
      and dist: "distinct (map (sensorFormula lib) ?sens)"
  proof -
    have fS: "map (formulaOf lib) ?S = map (sensorFormula lib) ?sens"
      by (simp add: formulaOf_def sensorFormula_def)
    have dS: "distinct (map (formulaOf lib) ?S)" unfolding fS by (rule dist)
    from keys dist have dK: "distinct (map dataKey dataDocs)"
      by (metis mset_eq_imp_distinct_iff)
    from keys have setK: "set (map dataKey dataDocs) = set (map (sensorFormula lib) ?sens)"
      by (rule mset_eq_setD)
    from keys have lenK: "length dataDocs = length ?sens"
      by (metis length_map mset_eq_length)
    note inv = attachAll_invariant[OF dS dK]
    from inv have "length (map (formulaOf lib) (attachAll lib ?S dataDocs)) = length (map (formulaOf lib) ?S)"
      by simp
    then have lenA: "length (attachAll lib ?S dataDocs) = length ?sens" by simp
    have each: "\<exists>d \<in> set dataDocs. dataKey d = sensorFormula lib (?sens ! i)
        \<and> attachAll lib ?S dataDocs ! i
             = VMap (vset (sensorOf (?sens ! i)) ''measurements''
                       (VList (measurementsOf (j_toArray (j_index (j_toObject d) ''values'')))))"
      if i: "i < length ?sens" for i
    proof -
      from i have "sensorFormula lib (?sens ! i) \<in> set (map (sensorFormula lib) ?sens)" by simp
      with setK have "sensorFormula lib (?sens ! i) \<in> dataKey ` set dataDocs" by simp
      then obtain d where d: "d \<in> set dataDocs" "dataKey d = sensorFormula lib (?sens ! i)"
        by (metis imageE)
      from i have Si: "?S ! i = VMap (sensorOf (?sens ! i))" by simp
      with d(2) have "dataKey d = formulaOf lib (?S ! i)"
        by (simp add: formulaOf_def sensorFormula_def)
      with inv i d(1) have "attachAll lib ?S dataDocs ! i = withMeasurements (dataMeasurements d) (?S ! i)"
        by simp
      with Si d show ?thesis
        by (auto simp: withMeasurements_def dataMeasurements_def)
    qed
    show ?thesis
      using rec(2) lenA each lenK by simp
  qed
  have meas: "measurementsOf vals
           = map measurementOf (filter (\<lambda>jv. j_index (j_toObject jv) ''value'' \<noteq> JNull) vals)"
    by (simp add: measurementsOf_def j_isNull_def)
  have first: "\<forall>i. i < length S \<and> formulaOf lib (S ! i) = key \<and> (\<forall>j < i. formulaOf lib (S ! j) \<noteq> key) \<longrightarrow>
             attachMeasurements lib key ms S
               = S[i := VMap (vset (v_toMap (S ! i)) ''measurements'' (VList ms))]"
    using attach_first[of _ S lib key ms] by (simp add: withMeasurements_def)
  have none: "key \<notin> (formulaOf lib) ` set S \<longrightarrow> attachMeasurements lib key ms S = S"
    by (simp add: attach_none)
  have reqs: "length (sensorRequests lib ?sens) = length ?sens"
    by (simp add: sensorRequests_def)
  from rec(1) reqs lenarr rec(3) populated meas first none show ?thesis by blast
qed

text \<open>An instance of C1: two sensors, PM10 and NO2, whose measurements arrive in the
  opposite order.\<close>

theorem detail_fetch_witness:
  "detailArrival exSensorsDoc exIndexDoc [exData ''NO2'' 12, exData ''PM10'' 30] exArrivals
   \<and> mset (map dataKey [exData ''NO2'' 12, exData ''PM10'' 30])
       = mset (map (sensorFormula exLib) (j_toArray exSensorsDoc))
   \<and> distinct (map (sensorFormula exLib) (j_toArray exSensorsDoc))
   \<and> requests (run plainDecimal exLib (fetchStationDetails 1 exLoaded) exArrivals)
       = requests exLoaded @ [GetSensors 1, GetIndex 1] @ sensorRequests exLib (j_toArray exSensorsDoc)
   \<and> vget (m_stationDetails (run plainDecimal exLib (fetchStationDetails 1 exLoaded) exArrivals))
        ''airQualityIndex'' = VMap (indexOf exIndexDoc)
   \<and> length (v_toList (vget (m_stationDetails
        (run plainDecimal exLib (fetchStationDetails 1 exLoaded) exArrivals)) ''sensors'')) = 2"
proof -
  have k: "mset (map dataKey [exData ''NO2'' 12, exData ''PM10'' 30])
       = mset (map (sensorFormula exLib) (j_toArray exSensorsDoc))"
    by (simp add: ex_sensors)
  have d: "distinct (map (sensorFormula exLib) (j_toArray exSensorsDoc))"
    by (simp add: ex_sensors)
  note inst = detail_fetch_merges_all_replies [OF ex_arrival, of plainDecimal exLib 1 exLoaded]
  from inst have a: "requests (run plainDecimal exLib (fetchStationDetails 1 exLoaded) exArrivals)
       = requests exLoaded @ [GetSensors 1, GetIndex 1] @ sensorRequests exLib (j_toArray exSensorsDoc)"
    and b: "vget (m_stationDetails (run plainDecimal exLib (fetchStationDetails 1 exLoaded) exArrivals))
        ''airQualityIndex'' = VMap (indexOf exIndexDoc)"
    by blast+
  from inst k d have "length (v_toList (vget (m_stationDetails
        (run plainDecimal exLib (fetchStationDetails 1 exLoaded) exArrivals)) ''sensors''))
      = length (j_toArray exSensorsDoc)"
    by blast
  then have c: "length (v_toList (vget (m_stationDetails
        (run plainDecimal exLib (fetchStationDetails 1 exLoaded) exArrivals)) ''sensors'')) = 2"
    by (simp add: ex_sensors)
  from ex_arrival k d a b c show ?thesis by blast
qed

text \<open>
  C1 as it is stated fails when two sensors of a station have the same formula: both
  replies with measurements have that formula as their key, both go to the first of the
  two sensors, and after all four replies the second sensor has no measurements.
\<close>

theorem detail_fetch_counterexample:
  "detailArrival exTwinSensorsDoc exIndexDoc [exData ''PM10'' 30, exData ''PM10'' 31] exTwinArrivals
   \<and> map dataKey [exData ''PM10'' 30, exData ''PM10'' 31] = map (sensorFormula exLib) (j_toArray exTwinSensorsDoc)
   \<and> length exTwinArrivals = length (j_toArray exTwinSensorsDoc) + 2
   \<and> v_toList (vget (m_stationDetails
        (run plainDecimal exLib (fetchStationDetails 1 exLoaded) exTwinArrivals)) ''sensors'')
       = [VMap [(''id'', VInt 11), (''paramName'', VString ''PM10''), (''paramFormula'', VString ''PM10''),
                (''measurements'', VList [VMap [(''date'', VString ''2023-10-01 11:00:00''),
                                                (''value'', VDouble 31)]])],
          VMap [(''id'', VInt 12), (''paramName'', VString ''PM10''), (''paramFormula'', VString ''PM10'')]]
   \<and> vget (v_toMap (v_toList (vget (m_stationDetails
        (run plainDecimal exLib (fetchStationDetails 1 exLoaded) exTwinArrivals)) ''sensors'') ! 1))
        ''measurements'' = VInvalid"
proof -
  have a: "detailArrival exTwinSensorsDoc exIndexDoc [exData ''PM10'' 30, exData ''PM10'' 31] exTwinArrivals"
    by (simp add: detailArrival_def exTwinArrivals_def isIndexArrival_def)
  have b: "map dataKey [exData ''PM10'' 30, exData ''PM10'' 31] = map (sensorFormula exLib) (j_toArray exTwinSensorsDoc)"
    by (simp add: ex_twin_sensors ex_sensors)
  have c: "length exTwinArrivals = length (j_toArray exTwinSensorsDoc) + 2"
    by (simp add: ex_twin_sensors exTwinArrivals_def)
  have s0: "sensorOf (exSensor 11 f) = [(''id'', VInt 11), (''paramName'', VString f), (''paramFormula'', VString f)]"
    "sensorOf (exSensor 12 f) = [(''id'', VInt 12), (''paramName'', VString f), (''paramFormula'', VString f)]" for f
    by (simp_all add: sensorOf_def exSensor_def Let_def json_defs)
  have m: "dataMeasurements (exData k x) = [VMap [(''date'', VString ''2023-10-01 11:00:00''), (''value'', VDouble x)]]" for k x
    by (simp add: dataMeasurements_def measurementsOf_def measurementOf_def exData_def Let_def json_defs)
  have d: "vget (m_stationDetails
        (run plainDecimal exLib (fetchStationDetails 1 exLoaded) exTwinArrivals)) ''sensors''
       = VList [VMap [(''id'', VInt 11), (''paramName'', VString ''PM10''), (''paramFormula'', VString ''PM10''),
                (''measurements'', VList [VMap [(''date'', VString ''2023-10-01 11:00:00''),
                                                (''value'', VDouble 31)]])],
          VMap [(''id'', VInt 12), (''paramName'', VString ''PM10''), (''paramFormula'', VString ''PM10'')]]"
    unfolding detail_record_after_arrival(2)[OF a]
    by (simp add: ex_twin_sensors attachAll_def s0 m ex_sensors Let_def vget_def v_toString_def)
  from a b c d show ?thesis
    by (simp add: vget_def)
qed

section \<open>Choosing among the stations\<close>

lemma parseStations_VMap:
  assumes "st \<in> set (parseStations td doc)"
  shows "VMap (v_toMap st) = st"
proof -
  from assms obtain jv where "parseStation td jv = Some st"
    by (force simp: parseStations_def List.map_filter_def image_iff)
  then show ?thesis
    by (auto simp: parseStation_def Let_def split: if_splits prod.splits)
qed

lemma filterByCity_parsed:
  "filterByCity lib city (parseStations td doc)
     = filter (\<lambda>st. v_toString lib (vget (v_toMap st) ''cityName'') = city) (parseStations td doc)"
  unfolding filterByCity_def
  by (rule map_idI) (auto simp: parseStations_VMap)

lemma selectionMode_cases:
  "(selectionMode q = AllStations \<longleftrightarrow> q = [])"
  "(selectionMode q = ByCity \<longleftrightarrow> q \<noteq> [] \<and> CHR '' '' \<notin> set q)"
  "(selectionMode q = Nearest \<longleftrightarrow> q \<noteq> [] \<and> CHR '' '' \<in> set q)"
  by (simp_all add: selectionMode_def)

lemma msg_distinct:
  "msgNoStationsIn q \<noteq> msgNoConnection"
  "msgLocationNotFound location \<noteq> msgNoConnection"
  by (simp_all add: msgNoStationsIn_def msgNoConnection_def msgLocationNotFound_def)

text \<open>
  C4, with the amendment that the query is not empty.  The reply is filtered by city
  exactly when the stored query is not empty and has no space in it.  The stations kept
  are then the parsed stations whose \<open>cityName\<close> is the query, character for character.
  When none is kept the outcome is the text that says no station was found in that city,
  which is not the text of a failed connection; the signals are \<open>stationsChanged\<close> and
  \<open>resultChanged\<close>, while a failed reply gives the text of the failed connection and
  \<open>networkError\<close>.
\<close>

theorem by_city_mode_filters_by_exact_name:
  "(selectionMode q = ByCity \<longleftrightarrow> q \<noteq> [] \<and> CHR '' '' \<notin> set q)
   \<and> (q \<noteq> [] \<and> CHR '' '' \<notin> set q \<and> m_result s = q \<longrightarrow>
        m_stations (processStationsReply td lib s (Finished doc))
          = filter (\<lambda>st. v_toString lib (vget (v_toMap st) ''cityName'') = q) (parseStations td doc)
      \<and> m_result (processStationsReply td lib s (Finished doc))
          = (if filter (\<lambda>st. v_toString lib (vget (v_toMap st) ''cityName'') = q) (parseStations td doc) = []
             then msgNoStationsIn q else [])
      \<and> emitted (processStationsReply td lib s (Finished doc)) = emitted s @ [stationsChanged, resultChanged])
   \<and> msgNoStationsIn q \<noteq> msgNoConnection
   \<and> m_result (processStationsReply td lib s NetworkFailure) = msgNoConnection
   \<and> emitted (processStationsReply td lib s NetworkFailure) = emitted s @ [resultChanged, networkError]"
proof (intro conjI impI)
  show "selectionMode q = ByCity \<longleftrightarrow> q \<noteq> [] \<and> CHR '' '' \<notin> set q"
    by (rule selectionMode_cases)
  show "msgNoStationsIn q \<noteq> msgNoConnection" by (rule msg_distinct)
  show "m_result (processStationsReply td lib s NetworkFailure) = msgNoConnection"
    by (simp add: processStationsReply_def emit_def)
  show "emitted (processStationsReply td lib s NetworkFailure) = emitted s @ [resultChanged, networkError]"
    by (simp add: processStationsReply_def emit_def)
next
  assume a: "q \<noteq> [] \<and> CHR '' '' \<notin> set q \<and> m_result s = q"
  then have m: "selectionMode (m_result s) = ByCity" by (simp add: selectionMode_cases)
  let ?f = "filter (\<lambda>st. v_toString lib (vget (v_toMap st) ''cityName'') = q) (parseStations td doc)"
  have eq: "processStationsReply td lib s (Finished doc) =
      emit resultChanged (emit stationsChanged
        (if ?f = [] then s\<lparr>m_stations := ?f, m_result := msgNoStationsIn q\<rparr>
         else s\<lparr>m_stations := ?f, m_result := []\<rparr>))"
    using a m by (simp add: processStationsReply_def Let_def filterByCity_parsed)
  show "m_stations (processStationsReply td lib s (Finished doc)) = ?f"
    by (simp add: eq emit_def)
  show "m_result (processStationsReply td lib s (Finished doc)) = (if ?f = [] then msgNoStationsIn q else [])"
    by (simp add: eq emit_def)
  show "emitted (processStationsReply td lib s (Finished doc)) = emitted s @ [stationsChanged, resultChanged]"
    by (simp add: eq emit_def)
qed

text \<open>An instance of C4: of the two stations of the example the search for Warszawa keeps
  the one in Warszawa, and the search for Sopot keeps none and says so.\<close>

theorem by_city_mode_witness:
  "''Warszawa'' \<noteq> [] \<and> CHR '' '' \<notin> set ''Warszawa''
   \<and> m_result (fetchStationsByCity ''Warszawa'' (MainWindow None True)) = ''Warszawa''
   \<and> m_stations (processStationsReply plainDecimal exLib
         (fetchStationsByCity ''Warszawa'' (MainWindow None True)) (Finished exStationsDoc))
       = [parseStations plainDecimal exStationsDoc ! 0]
   \<and> m_result (processStationsReply plainDecimal exLib
         (fetchStationsByCity ''Warszawa'' (MainWindow None True)) (Finished exStationsDoc)) = []
   \<and> m_result (processStationsReply plainDecimal exLib
         (fetchStationsByCity ''Sopot'' (MainWindow None True)) (Finished exStationsDoc))
       = msgNoStationsIn ''Sopot''"
proof -
  have h: "''Warszawa'' \<noteq> [] \<and> CHR '' '' \<notin> set ''Warszawa''
      \<and> m_result (fetchStationsByCity ''Warszawa'' (MainWindow None True)) = ''Warszawa''"
    by (simp add: ex_city_asked)
  have h2: "''Sopot'' \<noteq> [] \<and> CHR '' '' \<notin> set ''Sopot''
      \<and> m_result (fetchStationsByCity ''Sopot'' (MainWindow None True)) = ''Sopot''"
    by (simp add: ex_city_asked)
  have f: "filter (\<lambda>st. v_toString exLib (vget (v_toMap st) ''cityName'') = ''Warszawa'')
             (parseStations plainDecimal exStationsDoc) = [parseStations plainDecimal exStationsDoc ! 0]"
    by (simp add: ex_parsed variant_defs)
  have fs: "filter (\<lambda>st. v_toString exLib (vget (v_toMap st) ''cityName'') = ''Sopot'')
             (parseStations plainDecimal exStationsDoc) = []"
    by (simp add: ex_parsed variant_defs)
  note inst = by_city_mode_filters_by_exact_name
    [of "''Warszawa''" "fetchStationsByCity ''Warszawa'' (MainWindow None True)" plainDecimal exLib exStationsDoc]
  note thm2 = by_city_mode_filters_by_exact_name
    [of "''Sopot''" "fetchStationsByCity ''Sopot'' (MainWindow None True)" plainDecimal exLib exStationsDoc]
  from inst h have a: "m_stations (processStationsReply plainDecimal exLib
         (fetchStationsByCity ''Warszawa'' (MainWindow None True)) (Finished exStationsDoc))
       = [parseStations plainDecimal exStationsDoc ! 0]"
    and b: "m_result (processStationsReply plainDecimal exLib
         (fetchStationsByCity ''Warszawa'' (MainWindow None True)) (Finished exStationsDoc)) = []"
    unfolding f by simp_all
  from thm2 h2 have c: "m_result (processStationsReply plainDecimal exLib
         (fetchStationsByCity ''Sopot'' (MainWindow None True)) (Finished exStationsDoc))
       = msgNoStationsIn ''Sopot''"
    unfolding fs by simp
  from h a b c show ?thesis by blast
qed

text \<open>
  C4 as it is stated fails for the empty query, which has no space in it: a search by
  city with the empty name keeps both stations of the example, neither of which has an
  empty \<open>cityName\<close>, and reports nothing.
\<close>

theorem by_city_mode_counterexample:
  "CHR '' '' \<notin> set ([] :: string)
   \<and> m_result (fetchStationsByCity [] (MainWindow None True)) = []
   \<and> m_stations (processStationsReply plainDecimal exLib
         (fetchStationsByCity [] (MainWindow None True)) (Finished exStationsDoc))
       = parseStations plainDecimal exStationsDoc
   \<and> length (parseStations plainDecimal exStationsDoc) = 2
   \<and> filter (\<lambda>st. v_toString exLib (vget (v_toMap st) ''cityName'') = [])
         (parseStations plainDecimal exStationsDoc) = []
   \<and> m_result (processStationsReply plainDecimal exLib
         (fetchStationsByCity [] (MainWindow None True)) (Finished exStationsDoc)) = []"
  by (simp add: ex_city_asked processStationsReply_def selectionMode_def Let_def emit_def)
     (simp add: ex_parsed variant_defs)

lemma nearest_reply:
  assumes "selectionMode (m_result s) = Nearest"
  shows "m_stations (processStationsReply td lib s (Finished doc))
      = [VMap (snd (nearestScan lib (fst (qs_toDouble td (split_sp (m_result s) ! 0)))
                                (fst (qs_toDouble td (split_sp (m_result s) ! 1)))
                                (parseStations td doc) (DBL_MAX, [])))]"
    and "m_result (processStationsReply td lib s (Finished doc))
      = msgNearest lib (v_toString lib (vget (snd (nearestScan lib (fst (qs_toDouble td (split_sp (m_result s) ! 0)))
                                (fst (qs_toDouble td (split_sp (m_result s) ! 1)))
                                (parseStations td doc) (DBL_MAX, []))) ''name''))
          (fst (nearestScan lib (fst (qs_toDouble td (split_sp (m_result s) ! 0)))
                                (fst (qs_toDouble td (split_sp (m_result s) ! 1)))
                                (parseStations td doc) (DBL_MAX, [])))"
  using assms
  by (simp_all add: processStationsReply_def Let_def emit_def split: prod.splits)

text \<open>
  C2.  The station nearest to a point is to be chosen exactly when the stored query is
  two numbers separated by a space.  The program chooses it whenever the query has a
  space in it, and here it departs from what it documents: \<open>fetchStationsByCity\<close> is
  documented to filter the stations by the name of the city, and for the city Nowy Targ
  it stores a query with a space that is not two numbers.  The reply is then answered as
  a search for the station nearest to latitude 0 and longitude 0, the value of a text
  that is not a number.  For a reply whose one station is in Radom, where the filter by
  city keeps no station, the program returns that station with the distance 0 and the
  outcome of a nearest search.
\<close>

theorem city_with_space_is_answered_by_nearest_scan:
  "(selectionMode q = Nearest \<longleftrightarrow> q \<noteq> [] \<and> CHR '' '' \<in> set q)
   \<and> m_result (fetchStationsByCity ''Nowy Targ'' (MainWindow None True)) = ''Nowy Targ''
   \<and> \<not> twoNumericTokens plainDecimal ''Nowy Targ''
   \<and> selectionMode ''Nowy Targ'' = Nearest
   \<and> filterByCity exLib ''Nowy Targ'' (parseStations plainDecimal exOriginDoc) = []
   \<and> m_stations (processStationsReply plainDecimal exLib
        (fetchStationsByCity ''Nowy Targ'' (MainWindow None True)) (Finished exOriginDoc))
       = [VMap [(''id'', VInt 4), (''name'', VString ''Zero''), (''lat'', VDouble 0), (''lon'', VDouble 0),
                (''cityName'', VString ''Radom''), (''communeName'', VString ''Radom''),
                (''districtName'', VString ''Radom''), (''provinceName'', VString ''MAZOWIECKIE''),
                (''addressStreet'', VString ''ul. Wokalna 1''), (''savedToHistory'', VBool False),
                (''dist'', VDouble 0)]]
   \<and> m_result (processStationsReply plainDecimal exLib
        (fetchStationsByCity ''Nowy Targ'' (MainWindow None True)) (Finished exOriginDoc))
       = ''Najbli'' @ [CHR 0xC5, CHR 0xBC] @ ''sza stacja: Zero, Odleg'' @ [CHR 0xC5, CHR 0x82] @ ''o''
           @ [CHR 0xC5, CHR 0x9B, CHR 0xC4, CHR 0x87] @ '': 0.00 km''"
proof -
  have a: "selectionMode ''Nowy Targ'' = Nearest" by (simp add: selectionMode_def)
  have sp: "split_sp ''Nowy Targ'' = [''Nowy'', ''Targ'']" by simp
  have nt: "plainDecimal ''Nowy'' = None" "plainDecimal ''Targ'' = None"
    by (simp_all add: plainDecimal_def digitOf_def)
  have b: "\<not> twoNumericTokens plainDecimal ''Nowy Targ''"
    unfolding twoNumericTokens_def sp by (simp add: nt)
  have p: "parseStations plainDecimal exOriginDoc
      = [VMap [(''id'', VInt 4), (''name'', VString ''Zero''), (''lat'', VDouble 0), (''lon'', VDouble 0),
                (''cityName'', VString ''Radom''), (''communeName'', VString ''Radom''),
                (''districtName'', VString ''Radom''), (''provinceName'', VString ''MAZOWIECKIE''),
                (''addressStreet'', VString ''ul. Wokalna 1''), (''savedToHistory'', VBool False)]]"
    by (simp add: parseStations_def parseStation_def List.map_filter_simps json_defs example_defs
        qs_toDouble_def)
  have f: "filterByCity exLib ''Nowy Targ'' (parseStations plainDecimal exOriginDoc) = []"
    unfolding p by (simp add: filterByCity_def variant_defs)
  have mx: "(0::real) < DBL_MAX" by (simp add: DBL_MAX_def)
  have sc: "nearestScan exLib 0 0 (parseStations plainDecimal exOriginDoc) (DBL_MAX, [])
      = (0, [(''id'', VInt 4), (''name'', VString ''Zero''), (''lat'', VDouble 0), (''lon'', VDouble 0),
                (''cityName'', VString ''Radom''), (''communeName'', VString ''Radom''),
                (''districtName'', VString ''Radom''), (''provinceName'', VString ''MAZOWIECKIE''),
                (''addressStreet'', VString ''ul. Wokalna 1''), (''savedToHistory'', VBool False),
                (''dist'', VDouble 0)])"
    unfolding p by (simp add: distanceTo_def variant_defs ex_origin_distance mx)
  have c: "m_result (fetchStationsByCity ''Nowy Targ'' (MainWindow None True)) = ''Nowy Targ''"
    by (rule ex_city_asked)
  have q: "fst (qs_toDouble plainDecimal (split_sp ''Nowy Targ'' ! 0)) = 0"
    "fst (qs_toDouble plainDecimal (split_sp ''Nowy Targ'' ! 1)) = 0"
    unfolding sp by (simp_all add: qs_toDouble_def nt)
  have m: "selectionMode (m_result (fetchStationsByCity ''Nowy Targ'' (MainWindow None True))) = Nearest"
    by (simp only: c a)
  have d: "m_stations (processStationsReply plainDecimal exLib
        (fetchStationsByCity ''Nowy Targ'' (MainWindow None True)) (Finished exOriginDoc))
       = [VMap [(''id'', VInt 4), (''name'', VString ''Zero''), (''lat'', VDouble 0), (''lon'', VDouble 0),
                (''cityName'', VString ''Radom''), (''communeName'', VString ''Radom''),
                (''districtName'', VString ''Radom''), (''provinceName'', VString ''MAZOWIECKIE''),
                (''addressStreet'', VString ''ul. Wokalna 1''), (''savedToHistory'', VBool False),
                (''dist'', VDouble 0)]]"
    unfolding nearest_reply(1)[OF m] c q sc by simp
  have e: "m_result (processStationsReply plainDecimal exLib
        (fetchStationsByCity ''Nowy Targ'' (MainWindow None True)) (Finished exOriginDoc))
       = ''Najbli'' @ [CHR 0xC5, CHR 0xBC] @ ''sza stacja: Zero, Odleg'' @ [CHR 0xC5, CHR 0x82] @ ''o''
           @ [CHR 0xC5, CHR 0x9B, CHR 0xC4, CHR 0x87] @ '': 0.00 km''"
    unfolding nearest_reply(2)[OF m] c q sc
    by (simp add: variant_defs msgNearest_def nearestTemplate_def exLib_def exFormat2_def)
  have g: "selectionMode q = Nearest \<longleftrightarrow> q \<noteq> [] \<and> CHR '' '' \<in> set q"
    by (rule selectionMode_cases)
  from a b c d e f g show ?thesis by blast
qed

section \<open>Starting a search\<close>

text \<open>
  C3, as amended.  When the lookup of the address fails, with an error of the provider
  or with an empty list of results, the search for the nearest station sets the outcome
  to the text that says the location was not found, which is not the text of a failed
  connection; it issues no request for the stations and leaves the list of stations as
  it was.  After an error of the provider it emits \<open>resultChanged\<close> and \<open>networkError\<close>.
\<close>

theorem geocoding_failure_gives_location_not_found:
  "getLocationCoords td NetworkFailure = None
   \<and> getLocationCoords td (Finished (JArray [])) = None
   \<and> (getLocationCoords td geo = None \<longrightarrow>
        m_result (fetchNearestStation td fmt geo location s) = msgLocationNotFound location
      \<and> requests (fetchNearestStation td fmt geo location s) = requests s
      \<and> m_stations (fetchNearestStation td fmt geo location s) = m_stations s)
   \<and> msgLocationNotFound location \<noteq> msgNoConnection
   \<and> emitted (fetchNearestStation td fmt NetworkFailure location s)
       = emitted s @ [resultChanged, networkError]"
  by (simp add: getLocationCoords_def j_toArray_def fetchNearestStation_def emit_def msg_distinct)

text \<open>An instance of C3: an address for which the lookup returns an empty list.\<close>

theorem geocoding_failure_witness:
  "getLocationCoords plainDecimal (Finished (JArray [])) = None
   \<and> m_result (fetchNearestStation plainDecimal exFormat (Finished (JArray [])) ''Atlantyda''
        (MainWindow None True)) = msgLocationNotFound ''Atlantyda''
   \<and> requests (fetchNearestStation plainDecimal exFormat (Finished (JArray [])) ''Atlantyda''
        (MainWindow None True)) = []"
proof -
  note inst = geocoding_failure_gives_location_not_found
    [of plainDecimal "Finished (JArray [])" exFormat "''Atlantyda''" "MainWindow None True"]
  have r: "requests (MainWindow None True) = []" by (simp add: state_defs)
  from inst r show ?thesis by simp
qed

text \<open>
  C3 as it is stated fails: after an error of the provider, and after an empty list of
  results as well, \<open>networkError\<close> is among the signals emitted.
\<close>

theorem geocoding_failure_counterexample:
  "getLocationCoords plainDecimal NetworkFailure = None
   \<and> networkError \<in> set (emitted (fetchNearestStation plainDecimal exFormat NetworkFailure
        ''Atlantyda'' (MainWindow None True)))
   \<and> getLocationCoords plainDecimal (Finished (JArray [])) = None
   \<and> networkError \<in> set (emitted (fetchNearestStation plainDecimal exFormat (Finished (JArray []))
        ''Atlantyda'' (MainWindow None True)))"
  by (simp add: state_defs j_toArray_def)

text \<open>
  C9, as amended.  The search for all stations and the search by city, for every input,
  and the search for the nearest station whenever the lookup of the address gives a
  valid coordinate, replace the user's location, the user's address, the result and the
  flag of the history before they issue the request for the stations: at that moment the
  location and the address are empty (or the new coordinate and the new address), the
  result is empty (or the city, or the two coordinates), and the flag is false.
\<close>

theorem search_entry_points_overwrite_prior_state:
  "(\<exists>s'. fetchAllStations s = manager_get GetFindAll s' \<and> requests s' = requests s
         \<and> m_userLocation s' = [] \<and> m_userAddress s' = [] \<and> m_result s' = []
         \<and> \<not> m_isFromHistory s')
   \<and> (\<exists>s'. fetchStationsByCity city s = manager_get GetFindAll s' \<and> requests s' = requests s
         \<and> m_userLocation s' = [] \<and> m_userAddress s' = [] \<and> m_result s' = city
         \<and> \<not> m_isFromHistory s')
   \<and> (getLocationCoords td geo = Some (lat, lon) \<longrightarrow>
        (\<exists>s'. fetchNearestStation td fmt geo location s = manager_get GetFindAll s'
           \<and> requests s' = requests s
           \<and> vget (m_userLocation s') ''lat'' = VDouble lat
           \<and> vget (m_userLocation s') ''lon'' = VDouble lon
           \<and> m_userAddress s' = location \<and> m_result s' = fmt lat @ '' '' @ fmt lon
           \<and> \<not> m_isFromHistory s'))"
proof (intro conjI impI)
  show "\<exists>s'. fetchAllStations s = manager_get GetFindAll s' \<and> requests s' = requests s
         \<and> m_userLocation s' = [] \<and> m_userAddress s' = [] \<and> m_result s' = []
         \<and> \<not> m_isFromHistory s'"
    unfolding fetchAllStations_def Let_def
    by (rule exI, rule conjI, rule refl) (simp add: emit_def)
  show "\<exists>s'. fetchStationsByCity city s = manager_get GetFindAll s' \<and> requests s' = requests s
         \<and> m_userLocation s' = [] \<and> m_userAddress s' = [] \<and> m_result s' = city
         \<and> \<not> m_isFromHistory s'"
    unfolding fetchStationsByCity_def Let_def
    by (rule exI, rule conjI, rule refl) (simp add: emit_def)
next
  assume g: "getLocationCoords td geo = Some (lat, lon)"
  show "\<exists>s'. fetchNearestStation td fmt geo location s = manager_get GetFindAll s'
           \<and> requests s' = requests s
           \<and> vget (m_userLocation s') ''lat'' = VDouble lat
           \<and> vget (m_userLocation s') ''lon'' = VDouble lon
           \<and> m_userAddress s' = location \<and> m_result s' = fmt lat @ '' '' @ fmt lon
           \<and> \<not> m_isFromHistory s'"
    unfolding fetchNearestStation_def Let_def g option.case prod.case
    by (rule exI, rule conjI, rule refl) (simp add: emit_def vget_vset)
qed

text \<open>An instance of C9: a search for the station nearest to an address that is found.\<close>

theorem search_entry_points_witness:
  "getLocationCoords plainDecimal (Finished exGeoDoc) = Some (522 / 10, 21)
   \<and> m_userAddress exNearestAsked = ''Warszawa''
   \<and> m_result exNearestAsked = ''52.2 21''
   \<and> vget (m_userLocation exNearestAsked) ''lat'' = VDouble (522 / 10)
   \<and> \<not> m_isFromHistory exNearestAsked
   \<and> requests exNearestAsked = [GetFindAll]"
proof -
  note inst = search_entry_points_overwrite_prior_state
    [of "MainWindow None True" "''Warszawa''" plainDecimal "Finished exGeoDoc" "522 / 10" 21 exFormat "''Warszawa''"]
  from inst ex_geo obtain s' where s':
    "fetchNearestStation plainDecimal exFormat (Finished exGeoDoc) ''Warszawa'' (MainWindow None True)
       = manager_get GetFindAll s'"
    "requests s' = requests (MainWindow None True)"
    "vget (m_userLocation s') ''lat'' = VDouble (522 / 10)"
    "m_userAddress s' = ''Warszawa''" "m_result s' = exFormat (522 / 10) @ '' '' @ exFormat 21"
    "\<not> m_isFromHistory s'"
    by blast
  have r: "requests (MainWindow None True) = []" by (simp add: state_defs)
  from s' r ex_geo show ?thesis
    by (simp add: exNearestAsked_def manager_get_def exFormat_def)
qed

text \<open>
  C9 as it is stated fails when the lookup of the address fails: the flag of the
  history, set by showing a station from the history, is still set after the search, and
  the address and the location of an earlier search are still there.
\<close>

theorem search_entry_points_counterexample:
  "m_isFromHistory exFromHistory
   \<and> getLocationCoords plainDecimal NetworkFailure = None
   \<and> m_isFromHistory (fetchNearestStation plainDecimal exFormat NetworkFailure ''Atlantyda'' exFromHistory)
   \<and> m_userAddress exNearestAsked = ''Warszawa''
   \<and> m_userAddress (fetchNearestStation plainDecimal exFormat NetworkFailure ''Atlantyda'' exNearestAsked)
       = ''Warszawa''
   \<and> m_userLocation (fetchNearestStation plainDecimal exFormat NetworkFailure ''Atlantyda'' exNearestAsked)
       = [(''lat'', VDouble (522 / 10)), (''lon'', VDouble 21)]"
proof -
  have a: "m_isFromHistory exFromHistory"
    by (simp add: exFromHistory_def state_defs example_defs Let_def)
  have b: "m_userAddress exNearestAsked = ''Warszawa''"
    "m_userLocation exNearestAsked = [(''lat'', VDouble (522 / 10)), (''lon'', VDouble 21)]"
    by (simp_all add: exNearestAsked_def fetchNearestStation_def ex_geo emit_def manager_get_def
        MainWindow_def loadHistory_def Let_def)
  have c: "getLocationCoords plainDecimal NetworkFailure = None"
    by (simp add: getLocationCoords_def)
  show ?thesis
    using a b by (simp add: fetchNearestStation_def c emit_def)
qed

section \<open>Saving a station to the history\<close>

lemma firstStationWithId_None:
  "firstStationWithId lib stationId xs = None \<longleftrightarrow> (\<forall>x \<in> set xs. v_toInt lib (vget (v_toMap x) ''id'') \<noteq> stationId)"
  by (induction xs) auto

lemma firstStationWithId_Some:
  "firstStationWithId lib stationId xs = Some i \<Longrightarrow>
     i < length xs \<and> v_toInt lib (vget (v_toMap (xs ! i)) ''id'') = stationId
     \<and> (\<forall>j < i. v_toInt lib (vget (v_toMap (xs ! j)) ''id'') \<noteq> stationId)"
proof (induction xs arbitrary: i)
  case Nil
  then show ?case by simp
next
  case (Cons x xs)
  show ?case
  proof (cases "v_toInt lib (vget (v_toMap x) ''id'') = stationId")
    case True
    with Cons.prems show ?thesis by simp
  next
    case False
    with Cons.prems obtain i' where i': "firstStationWithId lib stationId xs = Some i'" "i = Suc i'"
      by auto
    from Cons.IH[OF i'(1)] False i'(2) show ?thesis
      by (auto simp: less_Suc_eq_0_disj)
  qed
qed

lemma firstStationWithId_update:
  "firstStationWithId lib stationId xs = Some i \<Longrightarrow>
   v_toInt lib (vget (v_toMap y) ''id'') = stationId \<Longrightarrow>
   firstStationWithId lib stationId (xs[i := y]) = Some i"
proof (induction xs arbitrary: i)
  case Nil
  then show ?case by simp
next
  case (Cons x xs)
  then show ?case
    by (cases i) (auto split: if_splits)
qed

lemma saved_station_unchanged:
  assumes "firstStationWithId lib stationId (m_stations s) = Some i"
    and "v_toBool lib (vget (v_toMap (m_stations s ! i)) ''savedToHistory'')"
  shows "saveStationToHistory lib now stationId s = s"
proof -
  from assms(2) have "vget (v_toMap (m_stations s ! i)) ''savedToHistory'' \<noteq> VInvalid"
    by (auto simp: v_toBool_def)
  then have "v_contains (v_toMap (m_stations s ! i)) ''savedToHistory''"
    by (auto simp: v_contains_def vget_def split: option.splits)
  with assms show ?thesis
    by (simp add: saveStationToHistory_def)
qed

lemma save_sets_flag:
  assumes "firstStationWithId lib stationId (m_stations s) = Some i"
  shows "firstStationWithId lib stationId (m_stations (saveStationToHistory lib now stationId s)) = Some i
    \<and> v_toBool lib (vget (v_toMap (m_stations (saveStationToHistory lib now stationId s) ! i)) ''savedToHistory'')"
proof (cases "v_contains (v_toMap (m_stations s ! i)) ''savedToHistory''
                \<and> v_toBool lib (vget (v_toMap (m_stations s ! i)) ''savedToHistory'')")
  case True
  with assms show ?thesis by (simp add: saveStationToHistory_def)
next
  case False
  from firstStationWithId_Some[OF assms] have i: "i < length (m_stations s)"
    and idi: "v_toInt lib (vget (v_toMap (m_stations s ! i)) ''id'') = stationId" by auto
  have ms: "m_stations (saveStationToHistory lib now stationId s)
      = (m_stations s)[i := VMap (vset (v_toMap (m_stations s ! i)) ''savedToHistory'' (VBool True))]"
    using assms False by (auto simp add: saveStationToHistory_def Let_def emit_def)
  have "firstStationWithId lib stationId ((m_stations s)[i := VMap (vset (v_toMap (m_stations s ! i)) ''savedToHistory'' (VBool True))]) = Some i"
    by (rule firstStationWithId_update[OF assms]) (simp add: vget_vset idi)
  with ms i show ?thesis
    by (simp add: vget_vset v_toBool_def)
qed

text \<open>
  C10.  Saving a station by its identifier changes nothing when no station of the
  current list has that identifier, and nothing when the station the loop meets first
  with that identifier has its flag \<open>savedToHistory\<close> set.  A save sets that flag for
  the station it meets first.  So a second save of the same identifier leaves the whole
  state as the first save left it: the history in memory, the history file and the list
  of stations.
\<close>

theorem save_by_id_idempotent:
  "((\<forall>x \<in> set (m_stations s). v_toInt lib (vget (v_toMap x) ''id'') \<noteq> stationId)
      \<longrightarrow> saveStationToHistory lib now stationId s = s)
   \<and> (\<forall>i. firstStationWithId lib stationId (m_stations s) = Some i
         \<and> v_toBool lib (vget (v_toMap (m_stations s ! i)) ''savedToHistory'')
      \<longrightarrow> saveStationToHistory lib now stationId s = s)
   \<and> (\<forall>i. firstStationWithId lib stationId (m_stations s) = Some i
      \<longrightarrow> v_toBool lib (vget (v_toMap (m_stations (saveStationToHistory lib now stationId s) ! i)) ''savedToHistory''))
   \<and> saveStationToHistory lib now' stationId (saveStationToHistory lib now stationId s)
       = saveStationToHistory lib now stationId s"
proof (intro conjI allI impI)
  assume "\<forall>x \<in> set (m_stations s). v_toInt lib (vget (v_toMap x) ''id'') \<noteq> stationId"
  then have "firstStationWithId lib stationId (m_stations s) = None"
    by (simp add: firstStationWithId_None)
  then show "saveStationToHistory lib now stationId s = s"
    by (simp add: saveStationToHistory_def)
next
  fix i
  assume "firstStationWithId lib stationId (m_stations s) = Some i
         \<and> v_toBool lib (vget (v_toMap (m_stations s ! i)) ''savedToHistory'')"
  then show "saveStationToHistory lib now stationId s = s"
    using saved_station_unchanged by blast
next
  fix i
  assume "firstStationWithId lib stationId (m_stations s) = Some i"
  then show "v_toBool lib (vget (v_toMap (m_stations (saveStationToHistory lib now stationId s) ! i)) ''savedToHistory'')"
    using save_sets_flag by blast
next
  show "saveStationToHistory lib now' stationId (saveStationToHistory lib now stationId s)
       = saveStationToHistory lib now stationId s"
  proof (cases "firstStationWithId lib stationId (m_stations s)")
    case None
    then show ?thesis by (simp add: saveStationToHistory_def)
  next
    case (Some i)
    from save_sets_flag[OF Some, of now] show ?thesis
      using saved_station_unchanged by blast
  qed
qed

text \<open>An instance of C10: in the loaded list of the example no station has the
  identifier 9; station 1 is saved once, and the second save changes nothing.\<close>

theorem save_by_id_witness:
  "firstStationWithId exLib 1 (m_stations exLoaded) = Some 0
   \<and> firstStationWithId exLib 9 (m_stations exLoaded) = None
   \<and> saveStationToHistory exLib ''2023-10-01T12:00:00'' 9 exLoaded = exLoaded
   \<and> v_toBool exLib (vget (v_toMap (m_stations (saveStationToHistory exLib ''2023-10-01T12:00:00'' 1 exLoaded) ! 0))
                 ''savedToHistory'')
   \<and> saveStationToHistory exLib ''2023-10-02T12:00:00'' 1 (saveStationToHistory exLib ''2023-10-01T12:00:00'' 1 exLoaded)
       = saveStationToHistory exLib ''2023-10-01T12:00:00'' 1 exLoaded
   \<and> length (m_history (saveStationToHistory exLib ''2023-10-01T12:00:00'' 1 exLoaded)) = 1"
proof -
  have first: "firstStationWithId exLib 1 (m_stations exLoaded) = Some 0"
    by (simp add: ex_loaded_stations ex_parsed variant_defs)
  have none9: "firstStationWithId exLib 9 (m_stations exLoaded) = None"
    by (simp add: ex_loaded_stations ex_parsed variant_defs)
  then have none: "\<forall>x \<in> set (m_stations exLoaded). v_toInt exLib (vget (v_toMap x) ''id'') \<noteq> 9"
    by (simp only: firstStationWithId_None)
  note thm9 = save_by_id_idempotent [of exLoaded exLib 9 "''2023-10-01T12:00:00''" "''2023-10-02T12:00:00''"]
  note thm1 = save_by_id_idempotent [of exLoaded exLib 1 "''2023-10-01T12:00:00''" "''2023-10-02T12:00:00''"]
  from thm9 none have a: "saveStationToHistory exLib ''2023-10-01T12:00:00'' 9 exLoaded = exLoaded"
    by blast
  from thm1 first have b: "v_toBool exLib (vget (v_toMap
      (m_stations (saveStationToHistory exLib ''2023-10-01T12:00:00'' 1 exLoaded) ! 0)) ''savedToHistory'')"
    by blast
  from thm1 have c: "saveStationToHistory exLib ''2023-10-02T12:00:00'' 1
        (saveStationToHistory exLib ''2023-10-01T12:00:00'' 1 exLoaded)
       = saveStationToHistory exLib ''2023-10-01T12:00:00'' 1 exLoaded"
    by blast
  have hf: "history_file exLoaded = None"
    by (simp add: exLoaded_def processStationsReply_def state_defs selectionMode_def Let_def)
  have d: "length (m_history (saveStationToHistory exLib ''2023-10-01T12:00:00'' 1 exLoaded)) = 1"
    using first hf
    by (simp add: saveStationToHistory_def Let_def emit_def ex_loaded_stations ex_parsed variant_defs)
  from first none9 a b c d show ?thesis by blast
qed

section \<open>The history of a city\<close>







lemma entry_of_map [simp]:
  "entryId lib (VMap (v_toMap h)) = entryId lib h"
  "entryTime lib fromISO (VMap (v_toMap h)) = entryTime lib fromISO h"
  "matchesCity lib lower city (VMap (v_toMap h)) = matchesCity lib lower city h"
  by (simp_all add: entryId_def entryTime_def matchesCity_def)







section \<open>Failed detail replies\<close>

text \<open>
  C8.  When the reply with the sensors, a reply with measurements or the reply with the
  index has failed, the slot emits \<open>networkError\<close> and does nothing else: the detail
  record is the one it was (what earlier replies have put there stays), and the counter
  of pending requests is not touched, for a failed list of sensors in particular.
\<close>

theorem failed_detail_reply_keeps_record:
  "processSensorsReply lib s NetworkFailure = s\<lparr>emitted := emitted s @ [networkError]\<rparr>
   \<and> processDataReply lib s NetworkFailure = s\<lparr>emitted := emitted s @ [networkError]\<rparr>
   \<and> processIndexReply lib s NetworkFailure = s\<lparr>emitted := emitted s @ [networkError]\<rparr>
   \<and> m_stationDetails (processSensorsReply lib s NetworkFailure) = m_stationDetails s
   \<and> m_stationDetails (processDataReply lib s NetworkFailure) = m_stationDetails s
   \<and> m_stationDetails (processIndexReply lib s NetworkFailure) = m_stationDetails s
   \<and> m_pendingRequests (processSensorsReply lib s NetworkFailure) = m_pendingRequests s
   \<and> pending (processSensorsReply lib s NetworkFailure) k = pending s k"
  by (simp add: processSensorsReply_def processSensorsReplySteps_def processDataReply_def
      processIndexReply_def emit_def pending_def)

end
